theory Spec2Isabelle
  imports Complex_Main "HOL-Library.Word"
begin

section \<open>The sensor framework (sensorFw.c) as HOL functions\<close>

text \<open>
  The framework sits between plugins (which hand in callbacks) and the Data Hub.
  Everything it does beyond returning a value is written into an explicit state:
  the plugin-side world the callbacks act on, the chronological trace of callback
  invocations and Data Hub / periodicSensor API calls, the memory pool of handlers,
  the memory of the pool's blocks, and the global counter of registered sensors.
  Logging (\<^verbatim>\<open>LE_INFO\<close>, \<^verbatim>\<open>LE_DEBUG\<close>, \<^verbatim>\<open>LE_ERROR\<close>) changes nothing the
  program can observe and is left out.
\<close>

subsection \<open>Result codes and enumerations\<close>

text \<open>The Legato result codes the framework tests or returns.\<close>

datatype le_result_t =
    LE_OK
  | LE_NOT_FOUND
  | LE_OVERFLOW
  | LE_FAULT
  | LE_DUPLICATE
  | LE_BAD_PARAMETER
  | LE_FORMAT_ERROR
  | LE_NO_MEMORY

text \<open>
  The Data Hub's data types (\<^verbatim>\<open>io_DataType_t\<close>, declared by the Data Hub's io API).
  \<^verbatim>\<open>PushData\<close> has a case for four of them and a \<^verbatim>\<open>default\<close> for the rest.
\<close>

datatype io_DataType_t =
    IO_DATA_TYPE_TRIGGER
  | IO_DATA_TYPE_BOOLEAN
  | IO_DATA_TYPE_NUMERIC
  | IO_DATA_TYPE_STRING
  | IO_DATA_TYPE_JSON

text \<open>
  \<^verbatim>\<open>sensorfwDataType_t\<close> (sensorFw.h) is a C enum, so the argument of
  \<^verbatim>\<open>sensorFw_RegisterCallback\<close> is an integer that may lie outside the four
  enumerators; the function has a \<^verbatim>\<open>default\<close> branch for that.
\<close>

type_synonym sensorfwDataType_t = int

definition SF_CB_NUMERIC :: sensorfwDataType_t where "SF_CB_NUMERIC = 0"
definition SF_CB_STRING :: sensorfwDataType_t where "SF_CB_STRING = 1"
definition SF_CB_BOOLEAN :: sensorfwDataType_t where "SF_CB_BOOLEAN = 2"
definition SF_CB_JSON :: sensorfwDataType_t where "SF_CB_JSON = 3"

subsection \<open>Constants of sensorFw.c and config.h\<close>

definition DEFAULT_SAMPLING_PERIOD_SEC :: real where
  "DEFAULT_SAMPLING_PERIOD_SEC = 60"

definition MAX_RESOURCE_NAME_LEN :: nat where
  "MAX_RESOURCE_NAME_LEN = 20"

definition MAX_RES_STRING_LEN :: nat where
  "MAX_RES_STRING_LEN = 1024"

text \<open>config.h: the pool size depends on \<^verbatim>\<open>LE_CONFIG_REDUCE_FOOTPRINT\<close>.\<close>

definition SENSOR_HANDLER_POOL_SIZE :: "bool \<Rightarrow> nat" where
  "SENSOR_HANDLER_POOL_SIZE LE_CONFIG_REDUCE_FOOTPRINT =
     (if LE_CONFIG_REDUCE_FOOTPRINT then 100 else 1000)"

subsection \<open>Callbacks (sensorFw.h)\<close>

text \<open>
  A callback receives a buffer, a length and the plugin's context pointer, and returns
  a result code; it reads hardware, so it acts on a plugin-side world \<open>'w\<close>.
  A \<^verbatim>\<open>void*\<close> is an address or \<^verbatim>\<open>NULL\<close> (\<open>None\<close>).
  The sample callbacks only write their buffer; the string-typed callback, which also
  serves as config callback, may read it: \<open>None\<close> is the uninitialised stack buffer
  that \<^verbatim>\<open>PushData\<close> and \<^verbatim>\<open>PushConfig\<close> pass, \<open>Some j\<close> the incoming text
  that \<^verbatim>\<open>ConfigUpdateHandler\<close> passes.
\<close>

type_synonym 'w pfBool = "nat \<Rightarrow> nat option \<Rightarrow> 'w \<Rightarrow> (le_result_t \<times> bool) \<times> 'w"
type_synonym 'w pfNumeric = "nat \<Rightarrow> nat option \<Rightarrow> 'w \<Rightarrow> (le_result_t \<times> real) \<times> 'w"
type_synonym 'w pfString =
  "string option \<Rightarrow> nat \<Rightarrow> nat option \<Rightarrow> 'w \<Rightarrow> (le_result_t \<times> string) \<times> 'w"
type_synonym 'w pfJSON = "'w pfString"

text \<open>
  The \<^verbatim>\<open>sample\<close> union holds one function pointer; the constructor records through
  which member it was stored. Reading it through a member of another function type and
  calling the result is undefined in C; \<^verbatim>\<open>pfString\<close> and \<^verbatim>\<open>pfJSON\<close> are the
  same type, so these two members read each other.
\<close>

datatype 'w sample_u =
    BoolCb "'w pfBool"
  | NumericCb "'w pfNumeric"
  | StringCb "'w pfString"
  | JsonCb "'w pfJSON"

fun boolCb :: "'w sample_u \<Rightarrow> 'w pfBool option" where
  "boolCb (BoolCb f) = Some f"
| "boolCb _ = None"

fun numericCb :: "'w sample_u \<Rightarrow> 'w pfNumeric option" where
  "numericCb (NumericCb f) = Some f"
| "numericCb _ = None"

fun stringCb :: "'w sample_u \<Rightarrow> 'w pfString option" where
  "stringCb (StringCb f) = Some f"
| "stringCb (JsonCb f) = Some f"
| "stringCb _ = None"

fun jsonCb :: "'w sample_u \<Rightarrow> 'w pfJSON option" where
  "jsonCb (JsonCb f) = Some f"
| "jsonCb (StringCb f) = Some f"
| "jsonCb _ = None"

record 'w sensorfwCallbacks_t =
  infoCb :: "'w pfString option"
  configCb :: "'w pfString option"
  sample :: "'w sample_u"

subsection \<open>Sensor records (sensorFw.c)\<close>

record sensorInfo_t =
  sensorId :: "32 word"
  name :: string
  path :: string
  isReadOnce :: bool
  unit :: string
  type :: io_DataType_t
  sensorRef :: "nat option"

record 'w sensorHandler_t =
  info :: sensorInfo_t
  callbacks :: "'w sensorfwCallbacks_t"
  pluginContextPtr :: "nat option"

subsection \<open>The trace of calls that leave the framework\<close>

text \<open>
  Every push is made with the timestamp \<^verbatim>\<open>IO_NOW\<close>, which the events omit.
  \<^verbatim>\<open>psensor_Create\<close> is always given \<^verbatim>\<open>SampleSensor\<close> and the handler as
  context, \<^verbatim>\<open>io_AddJsonPushHandler\<close> always \<^verbatim>\<open>ConfigUpdateHandler\<close> and the
  handler; the events keep the handler's address.
\<close>

datatype event =
    Call_boolCb nat "nat option"
  | Call_numericCb nat "nat option"
  | Call_stringCb nat "nat option"
  | Call_jsonCb nat "nat option"
  | Call_configCb "string option" nat "nat option"
  | Hub_CreateInput string io_DataType_t string
  | Hub_CreateOutput string io_DataType_t string
  | Hub_PushBoolean string bool
  | Hub_PushNumeric string real
  | Hub_PushString string string
  | Hub_PushJson string string
  | Hub_AddJsonPushHandler string nat
  | Psensor_Create string io_DataType_t string nat
  | Psensor_PushBoolean "nat option" bool
  | Psensor_PushNumeric "nat option" real
  | Psensor_PushString "nat option" string
  | Psensor_PushJson "nat option" string

fun isCallback :: "event \<Rightarrow> bool" where
  "isCallback (Call_boolCb _ _) = True"
| "isCallback (Call_numericCb _ _) = True"
| "isCallback (Call_stringCb _ _) = True"
| "isCallback (Call_jsonCb _ _) = True"
| "isCallback (Call_configCb _ _ _) = True"
| "isCallback _ = False"

text \<open>The calls that reach the Data Hub, directly or through periodicSensor.\<close>

definition hubCalls :: "event list \<Rightarrow> event list" where
  "hubCalls es = filter (\<lambda>e. \<not> isCallback e) es"

subsection \<open>What the framework is linked against\<close>

text \<open>
  The JSON library, the Data Hub and periodicSensor are other components. Their answers
  are parameters: \<open>json_Extract size doc member\<close> is the result code and the text left
  in the buffer of that size; \<open>json_ConvertToBoolean\<close> reads an extracted text as a
  boolean; a creation call answers from the trace so far and its arguments;
  \<^verbatim>\<open>psensor_Create\<close> answers a reference or \<^verbatim>\<open>NULL\<close>. The two io API length
  constants are declared by the Data Hub.
\<close>

record externals =
  json_Extract :: "nat \<Rightarrow> string \<Rightarrow> string \<Rightarrow> le_result_t \<times> string"
  json_ConvertToBoolean :: "string \<Rightarrow> bool"
  io_CreateInput :: "event list \<Rightarrow> string \<Rightarrow> io_DataType_t \<Rightarrow> string \<Rightarrow> le_result_t"
  io_CreateOutput :: "event list \<Rightarrow> string \<Rightarrow> io_DataType_t \<Rightarrow> string \<Rightarrow> le_result_t"
  psensor_Create :: "event list \<Rightarrow> string \<Rightarrow> io_DataType_t \<Rightarrow> string \<Rightarrow> nat \<Rightarrow> nat option"
  IO_MAX_RESOURCE_PATH_LEN :: nat
  IO_MAX_UNITS_NAME_LEN :: nat

text \<open>
  \<^verbatim>\<open>le_utf8_Copy(dest, src, destSize, NULL)\<close> of the Legato runtime: the whole
  string when it fits with its terminator, otherwise \<^verbatim>\<open>LE_OVERFLOW\<close> and as much
  of the string as fits (cut at a byte here; the runtime cuts at a character boundary).
\<close>

definition le_utf8_Copy :: "string \<Rightarrow> nat \<Rightarrow> le_result_t \<times> string" where
  "le_utf8_Copy src destSize =
     (if length src < destSize then (LE_OK, src)
      else (LE_OVERFLOW, take (destSize - 1) src))"

text \<open>\<^verbatim>\<open>snprintf(buf, n, "%s/%s", a, b)\<close>: at most \<open>n - 1\<close> bytes are kept.\<close>

definition snprintf_path :: "nat \<Rightarrow> string \<Rightarrow> string \<Rightarrow> string" where
  "snprintf_path n a b = take (n - 1) (a @ ''/'' @ b)"

subsection \<open>The memory pool\<close>

text \<open>
  The pool is Legato's. It keeps a free list of blocks. \<^verbatim>\<open>le_mem_ForceAlloc\<close>
  takes the head of the free list; when the list is empty it enlarges the pool (by one
  block here) and counts an overflow, so it always hands out a block and never returns
  \<^verbatim>\<open>NULL\<close>. \<^verbatim>\<open>le_mem_Release\<close> of a block that is referenced once puts it
  back on the free list. Blocks are named by their index.
\<close>

record le_mem_Pool =
  numBlocks :: nat
  freeList :: "nat list"
  numOverflows :: nat

definition le_mem_InitStaticPool :: "nat \<Rightarrow> le_mem_Pool" where
  "le_mem_InitStaticPool n = \<lparr>numBlocks = n, freeList = [0..<n], numOverflows = 0\<rparr>"

definition le_mem_ForceAlloc :: "le_mem_Pool \<Rightarrow> nat \<times> le_mem_Pool" where
  "le_mem_ForceAlloc p =
     (case freeList p of
        b # bs \<Rightarrow> (b, p\<lparr>freeList := bs\<rparr>)
      | [] \<Rightarrow> (numBlocks p,
               p\<lparr>numBlocks := Suc (numBlocks p), numOverflows := Suc (numOverflows p)\<rparr>))"

definition le_mem_Release :: "nat \<Rightarrow> le_mem_Pool \<Rightarrow> le_mem_Pool" where
  "le_mem_Release b p = p\<lparr>freeList := b # freeList p\<rparr>"

text \<open>The blocks in use: those of the pool that are not on the free list.\<close>

definition inUse :: "le_mem_Pool \<Rightarrow> nat list" where
  "inUse p = filter (\<lambda>b. b \<notin> set (freeList p)) [0..<numBlocks p]"

subsection \<open>The state\<close>

text \<open>
  \<open>heap\<close> is the memory of the blocks: a total function, so that what a block holds
  before a registration writes it is whatever the state says, as with memory that is
  not initialised. \<^verbatim>\<open>RegisteredSensorCount\<close> is a C \<^verbatim>\<open>int\<close>.
\<close>

record 'w fw =
  plugin :: 'w
  trace :: "event list"
  SensorHandlerPool :: le_mem_Pool
  heap :: "nat \<Rightarrow> 'w sensorHandler_t"
  RegisteredSensorCount :: "32 word"

text \<open>
  A call either returns or ends the process: a failed \<^verbatim>\<open>LE_ASSERT\<close> logs and
  terminates the process, and a call through a function pointer that is \<^verbatim>\<open>NULL\<close>
  or of another type has no defined behaviour.
\<close>

datatype abort = AssertFailed | UndefinedBehaviour

definition emit :: "event \<Rightarrow> 'w fw \<Rightarrow> 'w fw" where
  "emit e s = s\<lparr>trace := trace s @ [e]\<rparr>"

subsection \<open>Pushes\<close>

definition io_PushBoolean :: "string \<Rightarrow> bool \<Rightarrow> 'w fw \<Rightarrow> 'w fw" where
  "io_PushBoolean p v s = emit (Hub_PushBoolean p v) s"

definition io_PushNumeric :: "string \<Rightarrow> real \<Rightarrow> 'w fw \<Rightarrow> 'w fw" where
  "io_PushNumeric p v s = emit (Hub_PushNumeric p v) s"

definition io_PushString :: "string \<Rightarrow> string \<Rightarrow> 'w fw \<Rightarrow> 'w fw" where
  "io_PushString p v s = emit (Hub_PushString p v) s"

definition io_PushJson :: "string \<Rightarrow> string \<Rightarrow> 'w fw \<Rightarrow> 'w fw" where
  "io_PushJson p v s = emit (Hub_PushJson p v) s"

definition psensor_PushBoolean :: "nat option \<Rightarrow> bool \<Rightarrow> 'w fw \<Rightarrow> 'w fw" where
  "psensor_PushBoolean r v s = emit (Psensor_PushBoolean r v) s"

definition psensor_PushNumeric :: "nat option \<Rightarrow> real \<Rightarrow> 'w fw \<Rightarrow> 'w fw" where
  "psensor_PushNumeric r v s = emit (Psensor_PushNumeric r v) s"

definition psensor_PushString :: "nat option \<Rightarrow> string \<Rightarrow> 'w fw \<Rightarrow> 'w fw" where
  "psensor_PushString r v s = emit (Psensor_PushString r v) s"

definition psensor_PushJson :: "nat option \<Rightarrow> string \<Rightarrow> 'w fw \<Rightarrow> 'w fw" where
  "psensor_PushJson r v s = emit (Psensor_PushJson r v) s"

subsection \<open>PushData\<close>

text \<open>
  One definition per case of the \<^verbatim>\<open>switch\<close> on \<^verbatim>\<open>info.type\<close>. The length
  passed is \<^verbatim>\<open>sizeof(bool)\<close>, \<^verbatim>\<open>sizeof(double)\<close> or the size of the string
  buffer.
\<close>

definition PushData_boolean :: "nat \<Rightarrow> 'w fw \<Rightarrow> (abort + le_result_t) \<times> 'w fw" where
  "PushData_boolean handlerPtr s =
     (let h = heap s handlerPtr in
      case boolCb (sample (callbacks h)) of
        None \<Rightarrow> (Inl UndefinedBehaviour, s)
      | Some readBoolValue \<Rightarrow>
          (case readBoolValue 1 (pluginContextPtr h) (plugin s) of
             ((result, boolSample), w) \<Rightarrow>
               (let s1 = emit (Call_boolCb 1 (pluginContextPtr h)) (s\<lparr>plugin := w\<rparr>) in
                if result = LE_OK then
                  (if isReadOnce (info h)
                   then (Inr LE_OK, io_PushBoolean (path (info h)) boolSample s1)
                   else (Inr LE_OK, psensor_PushBoolean (sensorRef (info h)) boolSample s1))
                else (Inr LE_FAULT, s1))))"

definition PushData_numeric :: "nat \<Rightarrow> 'w fw \<Rightarrow> (abort + le_result_t) \<times> 'w fw" where
  "PushData_numeric handlerPtr s =
     (let h = heap s handlerPtr in
      case numericCb (sample (callbacks h)) of
        None \<Rightarrow> (Inl UndefinedBehaviour, s)
      | Some readNumericValue \<Rightarrow>
          (case readNumericValue 8 (pluginContextPtr h) (plugin s) of
             ((result, numericSample), w) \<Rightarrow>
               (let s1 = emit (Call_numericCb 8 (pluginContextPtr h)) (s\<lparr>plugin := w\<rparr>) in
                if result = LE_OK then
                  (if isReadOnce (info h)
                   then (Inr LE_OK, io_PushNumeric (path (info h)) numericSample s1)
                   else (Inr LE_OK, psensor_PushNumeric (sensorRef (info h)) numericSample s1))
                else (Inr LE_FAULT, s1))))"

definition PushData_string :: "nat \<Rightarrow> 'w fw \<Rightarrow> (abort + le_result_t) \<times> 'w fw" where
  "PushData_string handlerPtr s =
     (let h = heap s handlerPtr in
      case stringCb (sample (callbacks h)) of
        None \<Rightarrow> (Inl UndefinedBehaviour, s)
      | Some readStringValue \<Rightarrow>
          (case readStringValue None MAX_RES_STRING_LEN (pluginContextPtr h) (plugin s) of
             ((result, sampleString), w) \<Rightarrow>
               (let s1 = emit (Call_stringCb MAX_RES_STRING_LEN (pluginContextPtr h))
                           (s\<lparr>plugin := w\<rparr>) in
                if result = LE_OK then
                  (if isReadOnce (info h)
                   then (Inr LE_OK, io_PushString (path (info h)) sampleString s1)
                   else (Inr LE_OK, psensor_PushString (sensorRef (info h)) sampleString s1))
                else (Inr LE_FAULT, s1))))"

definition PushData_json :: "nat \<Rightarrow> 'w fw \<Rightarrow> (abort + le_result_t) \<times> 'w fw" where
  "PushData_json handlerPtr s =
     (let h = heap s handlerPtr in
      case jsonCb (sample (callbacks h)) of
        None \<Rightarrow> (Inl UndefinedBehaviour, s)
      | Some readStringValue \<Rightarrow>
          (case readStringValue None MAX_RES_STRING_LEN (pluginContextPtr h) (plugin s) of
             ((result, sampleString), w) \<Rightarrow>
               (let s1 = emit (Call_jsonCb MAX_RES_STRING_LEN (pluginContextPtr h))
                           (s\<lparr>plugin := w\<rparr>) in
                if result = LE_OK then
                  (if isReadOnce (info h)
                   then (Inr LE_OK, io_PushJson (path (info h)) sampleString s1)
                   else (Inr LE_OK, psensor_PushJson (sensorRef (info h)) sampleString s1))
                else (Inr LE_FAULT, s1))))"

text \<open>The \<^verbatim>\<open>default\<close> case logs, breaks, and falls to \<^verbatim>\<open>return LE_OK\<close>.\<close>

definition PushData :: "nat \<Rightarrow> 'w fw \<Rightarrow> (abort + le_result_t) \<times> 'w fw" where
  "PushData handlerPtr s =
     (case type (info (heap s handlerPtr)) of
        IO_DATA_TYPE_BOOLEAN \<Rightarrow> PushData_boolean handlerPtr s
      | IO_DATA_TYPE_NUMERIC \<Rightarrow> PushData_numeric handlerPtr s
      | IO_DATA_TYPE_STRING \<Rightarrow> PushData_string handlerPtr s
      | IO_DATA_TYPE_JSON \<Rightarrow> PushData_json handlerPtr s
      | IO_DATA_TYPE_TRIGGER \<Rightarrow> (Inr LE_OK, s))"

subsection \<open>PushConfig\<close>

text \<open>
  The config callback is called first, on the uninitialised buffer; the resource path
  is \<^verbatim>\<open>info.path\<close> followed by \<^verbatim>\<open>/config\<close>, in a buffer of
  \<^verbatim>\<open>IO_MAX_RESOURCE_PATH_LEN + MAX_RESOURCE_NAME_LEN\<close> bytes.
\<close>

definition resourcePathOf :: "externals \<Rightarrow> string \<Rightarrow> string \<Rightarrow> string" where
  "resourcePathOf env p leaf =
     snprintf_path (IO_MAX_RESOURCE_PATH_LEN env + MAX_RESOURCE_NAME_LEN) p leaf"

definition PushConfig :: "externals \<Rightarrow> nat \<Rightarrow> 'w fw \<Rightarrow> (abort + le_result_t) \<times> 'w fw" where
  "PushConfig env handlerPtr s =
     (let h = heap s handlerPtr in
      case configCb (callbacks h) of
        None \<Rightarrow> (Inl UndefinedBehaviour, s)
      | Some readStringValue \<Rightarrow>
          (case readStringValue None MAX_RES_STRING_LEN (pluginContextPtr h) (plugin s) of
             ((result, sampleString), w) \<Rightarrow>
               (let s1 = emit (Call_configCb None MAX_RES_STRING_LEN (pluginContextPtr h))
                           (s\<lparr>plugin := w\<rparr>);
                    resourcePath = resourcePathOf env (path (info h)) ''config'' in
                if result = LE_OK then (Inr LE_OK, io_PushJson resourcePath sampleString s1)
                else (Inr LE_FAULT, s1))))"

subsection \<open>ConfigUpdateHandler and SampleSensor\<close>

text \<open>
  Both are callbacks handed to the other components, with the handler as context;
  a \<^verbatim>\<open>NULL\<close> context is logged and ignored. The timestamp is only logged.
  \<^verbatim>\<open>ConfigUpdateHandler\<close> drops the config callback's result, \<^verbatim>\<open>SampleSensor\<close>
  that of \<^verbatim>\<open>PushData\<close>.
\<close>

definition ConfigUpdateHandler ::
  "real \<Rightarrow> string \<Rightarrow> nat option \<Rightarrow> 'w fw \<Rightarrow> (abort + unit) \<times> 'w fw" where
  "ConfigUpdateHandler timestamp jsonStringPtr contextPtr s =
     (case contextPtr of
        None \<Rightarrow> (Inr (), s)
      | Some handlerPtr \<Rightarrow>
          (let h = heap s handlerPtr; configSize = length jsonStringPtr in
           case configCb (callbacks h) of
             None \<Rightarrow> (Inl UndefinedBehaviour, s)
           | Some cb \<Rightarrow>
               (case cb (Some jsonStringPtr) configSize (pluginContextPtr h) (plugin s) of
                  (_, w) \<Rightarrow>
                    (Inr (),
                     emit (Call_configCb (Some jsonStringPtr) configSize (pluginContextPtr h))
                       (s\<lparr>plugin := w\<rparr>)))))"

definition dropResult :: "(abort + le_result_t) \<times> 'w fw \<Rightarrow> (abort + unit) \<times> 'w fw" where
  "dropResult r = (case r of (Inl a, s) \<Rightarrow> (Inl a, s) | (Inr _, s) \<Rightarrow> (Inr (), s))"


subsection \<open>AddDataHubEntry\<close>

definition setSensorRef :: "nat \<Rightarrow> nat option \<Rightarrow> 'w fw \<Rightarrow> 'w fw" where
  "setSensorRef handlerPtr r s =
     s\<lparr>heap := (heap s)(handlerPtr :=
          (heap s handlerPtr)\<lparr>info := (info (heap s handlerPtr))\<lparr>sensorRef := r\<rparr>\<rparr>)\<rparr>"

definition AddDataHubEntry :: "externals \<Rightarrow> nat \<Rightarrow> 'w fw \<Rightarrow> (abort + unit) \<times> 'w fw" where
  "AddDataHubEntry env handlerPtr s =
     (let i = info (heap s handlerPtr) in
      if isReadOnce i then
        (let s1 = setSensorRef handlerPtr None s;
             result = io_CreateInput env (trace s1) (path i) (type i) (unit i);
             s2 = emit (Hub_CreateInput (path i) (type i) (unit i)) s1 in
         if result = LE_OK \<or> result = LE_DUPLICATE
         then dropResult (PushData handlerPtr s2)
         else (Inl AssertFailed, s2))
      else
        (let r = psensor_Create env (trace s) (path i) (type i) (unit i) handlerPtr;
             s1 = emit (Psensor_Create (path i) (type i) (unit i) handlerPtr)
                    (setSensorRef handlerPtr r s) in
         if r \<noteq> None then
           (let s2 = io_PushBoolean (resourcePathOf env (path i) ''enable'') True s1;
                s3 = io_PushNumeric (resourcePathOf env (path i) ''period'')
                       DEFAULT_SAMPLING_PERIOD_SEC s2
            in dropResult (PushData handlerPtr s3))
         else (Inl AssertFailed, s1)))"

subsection \<open>ParseSensorInfo\<close>

text \<open>
  The function fills the record it is given, field by field, and stops at the first
  failure; what it had written by then stays in the record. The extraction buffer has
  128 bytes; the destination sizes are those of the fields of \<^verbatim>\<open>sensorInfo_t\<close>.
\<close>

definition ParseSensorInfo ::
  "externals \<Rightarrow> string \<Rightarrow> sensorInfo_t \<Rightarrow> le_result_t \<times> sensorInfo_t" where
  "ParseSensorInfo env jsonStringPtr i0 =
     (case json_Extract env 128 jsonStringPtr ''name'' of (result, extractedData) \<Rightarrow>
      if result \<noteq> LE_OK then (LE_FAULT, i0) else
      case le_utf8_Copy extractedData MAX_RESOURCE_NAME_LEN of (c, copied) \<Rightarrow>
      let i1 = i0\<lparr>name := copied\<rparr> in
      if c \<noteq> LE_OK then (LE_FAULT, i1) else
      case json_Extract env 128 jsonStringPtr ''path'' of (result, extractedData) \<Rightarrow>
      if result \<noteq> LE_OK then (LE_FAULT, i1) else
      case le_utf8_Copy extractedData (IO_MAX_RESOURCE_PATH_LEN env) of (c, copied) \<Rightarrow>
      let i2 = i1\<lparr>path := copied\<rparr> in
      if c \<noteq> LE_OK then (LE_FAULT, i2) else
      case json_Extract env 128 jsonStringPtr ''readOnce'' of (result, extractedData) \<Rightarrow>
      let i3 = (if result = LE_OK
                then i2\<lparr>isReadOnce := json_ConvertToBoolean env extractedData\<rparr>
                else i2\<lparr>isReadOnce := False\<rparr>) in
      case json_Extract env 128 jsonStringPtr ''unit'' of (result, extractedData) \<Rightarrow>
      if result \<noteq> LE_OK then (LE_FAULT, i3) else
      case le_utf8_Copy extractedData (IO_MAX_UNITS_NAME_LEN env) of (c, copied) \<Rightarrow>
      let i4 = i3\<lparr>unit := copied\<rparr> in
      if c \<noteq> LE_OK then (LE_FAULT, i4) else (LE_OK, i4))"

subsection \<open>sensorFw_PushSample\<close>


subsection \<open>sensorFw_RegisterCallback\<close>

text \<open>
  The \<^verbatim>\<open>switch\<close> on the callback type: the data type stored in the handler, or
  nothing in the \<^verbatim>\<open>default\<close> case. Each case copies the union through one member,
  which copies the pointer it holds. The out-parameter \<^verbatim>\<open>returnHandler\<close> is never
  written and is left out; \<^verbatim>\<open>cbPtr\<close> points to a callback structure.
\<close>

definition dataTypeOf :: "sensorfwDataType_t \<Rightarrow> io_DataType_t option" where
  "dataTypeOf t =
     (if t = SF_CB_NUMERIC then Some IO_DATA_TYPE_NUMERIC
      else if t = SF_CB_BOOLEAN then Some IO_DATA_TYPE_BOOLEAN
      else if t = SF_CB_STRING then Some IO_DATA_TYPE_STRING
      else if t = SF_CB_JSON then Some IO_DATA_TYPE_JSON
      else None)"

definition putHandler :: "nat \<Rightarrow> 'w sensorHandler_t \<Rightarrow> 'w fw \<Rightarrow> 'w fw" where
  "putHandler handlerPtr h s = s\<lparr>heap := (heap s)(handlerPtr := h)\<rparr>"

text \<open>The part after the \<^verbatim>\<open>switch\<close>: the Data Hub entry, the count, the config resource.\<close>

definition registerTail ::
  "externals \<Rightarrow> 'w sensorfwCallbacks_t \<Rightarrow> nat \<Rightarrow> 'w fw \<Rightarrow> (abort + le_result_t) \<times> 'w fw" where
  "registerTail env cbPtr handlerPtr s =
     (case AddDataHubEntry env handlerPtr s of
        (Inl a, s1) \<Rightarrow> (Inl a, s1)
      | (Inr _, s1) \<Rightarrow>
          (let s2 = s1\<lparr>RegisteredSensorCount := RegisteredSensorCount s1 + 1\<rparr>;
               i = info (heap s2 handlerPtr) in
           if \<not> isReadOnce i \<and> configCb cbPtr \<noteq> None then
             (let resourcePath = resourcePathOf env (path i) ''config'';
                  result = io_CreateOutput env (trace s2) resourcePath IO_DATA_TYPE_JSON [];
                  s3 = emit (Hub_CreateOutput resourcePath IO_DATA_TYPE_JSON []) s2 in
              if result = LE_OK \<or> result = LE_DUPLICATE then
                (case PushConfig env handlerPtr s3 of
                   (Inl a, s4) \<Rightarrow> (Inl a, s4)
                 | (Inr _, s4) \<Rightarrow>
                     (Inr LE_OK, emit (Hub_AddJsonPushHandler resourcePath handlerPtr) s4))
              else (Inl AssertFailed, s3))
           else (Inr LE_OK, s2)))"

definition sensorFw_RegisterCallback ::
  "externals \<Rightarrow> string \<Rightarrow> sensorfwDataType_t \<Rightarrow> 'w sensorfwCallbacks_t \<Rightarrow> nat option \<Rightarrow>
   'w fw \<Rightarrow> (abort + le_result_t) \<times> 'w fw" where
  "sensorFw_RegisterCallback env jsonStringPtr t cbPtr contextPtr s =
     (case le_mem_ForceAlloc (SensorHandlerPool s) of (handlerPtr, pool1) \<Rightarrow>
      let s1 = s\<lparr>SensorHandlerPool := pool1\<rparr>;
          h0 = heap s1 handlerPtr in
      case ParseSensorInfo env jsonStringPtr (info h0) of (result, i1) \<Rightarrow>
      if result \<noteq> LE_OK then
        (Inr LE_FAULT,
         (putHandler handlerPtr (h0\<lparr>info := i1\<rparr>) s1)
           \<lparr>SensorHandlerPool := le_mem_Release handlerPtr pool1\<rparr>)
      else
        (let h1 = h0\<lparr>info := i1\<lparr>sensorId := RegisteredSensorCount s1\<rparr>,
                      callbacks := (callbacks h0)\<lparr>configCb := configCb cbPtr\<rparr>,
                      pluginContextPtr := contextPtr\<rparr> in
         case dataTypeOf t of
           None \<Rightarrow> (Inr LE_FAULT, putHandler handlerPtr h1 s1)
         | Some dt \<Rightarrow>
             (let h2 = h1\<lparr>info := (info h1)\<lparr>type := dt\<rparr>,
                          callbacks := (callbacks h1)\<lparr>sample := sample cbPtr\<rparr>\<rparr>
              in registerTail env cbPtr handlerPtr (putHandler handlerPtr h2 s1))))"

text \<open>\<^verbatim>\<open>COMPONENT_INIT\<close> creates the pool; the counter is a zero-initialised static.\<close>

definition COMPONENT_INIT ::
  "bool \<Rightarrow> 'w \<Rightarrow> (nat \<Rightarrow> 'w sensorHandler_t) \<Rightarrow> 'w fw" where
  "COMPONENT_INIT reduceFootprint w mem =
     \<lparr>plugin = w, trace = [],
      SensorHandlerPool = le_mem_InitStaticPool (SENSOR_HANDLER_POOL_SIZE reduceFootprint),
      heap = mem, RegisteredSensorCount = 0\<rparr>"

subsection \<open>The dispatch as the design describes it\<close>

text \<open>
  The design's SampleAndPush selects the callback of the entry's payload kind, invokes
  it with a length hint and the plugin context, and on success pushes the value with the
  push primitive of the same kind. \<open>selectedSample\<close> is that selection and invocation:
  the invocation's event, the callback's result code, its value and the world it leaves;
  \<open>None\<close> when the union does not hold a callback of the kind. \<open>samplePush\<close> is
  the push of a value for an entry. These are compared with \<^verbatim>\<open>PushData\<close> below.
\<close>

datatype sample_value =
    BoolSample bool
  | NumericSample real
  | StringSample string
  | JsonSample string

fun selectedSample ::
  "'w sample_u \<Rightarrow> io_DataType_t \<Rightarrow> nat option \<Rightarrow> 'w \<Rightarrow>
   (event \<times> le_result_t \<times> sample_value \<times> 'w) option" where
  "selectedSample u IO_DATA_TYPE_BOOLEAN ctx w =
     (case boolCb u of None \<Rightarrow> None
      | Some f \<Rightarrow> (case f 1 ctx w of ((r, b), w') \<Rightarrow>
          Some (Call_boolCb 1 ctx, r, BoolSample b, w')))"
| "selectedSample u IO_DATA_TYPE_NUMERIC ctx w =
     (case numericCb u of None \<Rightarrow> None
      | Some f \<Rightarrow> (case f 8 ctx w of ((r, x), w') \<Rightarrow>
          Some (Call_numericCb 8 ctx, r, NumericSample x, w')))"
| "selectedSample u IO_DATA_TYPE_STRING ctx w =
     (case stringCb u of None \<Rightarrow> None
      | Some f \<Rightarrow> (case f None MAX_RES_STRING_LEN ctx w of ((r, x), w') \<Rightarrow>
          Some (Call_stringCb MAX_RES_STRING_LEN ctx, r, StringSample x, w')))"
| "selectedSample u IO_DATA_TYPE_JSON ctx w =
     (case jsonCb u of None \<Rightarrow> None
      | Some f \<Rightarrow> (case f None MAX_RES_STRING_LEN ctx w of ((r, x), w') \<Rightarrow>
          Some (Call_jsonCb MAX_RES_STRING_LEN ctx, r, JsonSample x, w')))"
| "selectedSample u IO_DATA_TYPE_TRIGGER ctx w = None"

fun samplePush :: "sensorInfo_t \<Rightarrow> sample_value \<Rightarrow> event" where
  "samplePush i (BoolSample b) =
     (if isReadOnce i then Hub_PushBoolean (path i) b else Psensor_PushBoolean (sensorRef i) b)"
| "samplePush i (NumericSample x) =
     (if isReadOnce i then Hub_PushNumeric (path i) x else Psensor_PushNumeric (sensorRef i) x)"
| "samplePush i (StringSample x) =
     (if isReadOnce i then Hub_PushString (path i) x else Psensor_PushString (sensorRef i) x)"
| "samplePush i (JsonSample x) =
     (if isReadOnce i then Hub_PushJson (path i) x else Psensor_PushJson (sensorRef i) x)"

fun isSampleCall :: "event \<Rightarrow> bool" where
  "isSampleCall (Call_boolCb _ _) = True"
| "isSampleCall (Call_numericCb _ _) = True"
| "isSampleCall (Call_stringCb _ _) = True"
| "isSampleCall (Call_jsonCb _ _) = True"
| "isSampleCall _ = False"

text \<open>
  The pushes of an entry's samples: to its path for a read-once entry, through
  periodicSensor otherwise.
\<close>

fun isSamplePush :: "bool \<Rightarrow> string \<Rightarrow> event \<Rightarrow> bool" where
  "isSamplePush ro p (Hub_PushBoolean q _) = (ro \<and> q = p)"
| "isSamplePush ro p (Hub_PushNumeric q _) = (ro \<and> q = p)"
| "isSamplePush ro p (Hub_PushString q _) = (ro \<and> q = p)"
| "isSamplePush ro p (Hub_PushJson q _) = (ro \<and> q = p)"
| "isSamplePush ro p (Psensor_PushBoolean _ _) = (\<not> ro)"
| "isSamplePush ro p (Psensor_PushNumeric _ _) = (\<not> ro)"
| "isSamplePush ro p (Psensor_PushString _ _) = (\<not> ro)"
| "isSamplePush ro p (Psensor_PushJson _ _) = (\<not> ro)"
| "isSamplePush ro p _ = False"

text \<open>The events a call added to the trace.\<close>

definition newEvents :: "'w fw \<Rightarrow> 'w fw \<Rightarrow> event list" where
  "newEvents s s' = drop (length (trace s)) (trace s')"

text \<open>The handler a registration works on: the block \<^verbatim>\<open>le_mem_ForceAlloc\<close> hands out.\<close>

definition allocated :: "'w fw \<Rightarrow> nat" where
  "allocated s = fst (le_mem_ForceAlloc (SensorHandlerPool s))"

subsection \<open>The handler a registration has filled in\<close>

text \<open>
  The handler as \<^verbatim>\<open>sensorFw_RegisterCallback\<close> has written it when it reaches
  \<^verbatim>\<open>AddDataHubEntry\<close>: the parsed information, the sensor index, the data type, the
  callbacks and the plugin context.
\<close>

definition filled ::
  "'w fw \<Rightarrow> sensorInfo_t \<Rightarrow> io_DataType_t \<Rightarrow> 'w sensorfwCallbacks_t \<Rightarrow> nat option \<Rightarrow>
   'w sensorHandler_t" where
  "filled s i1 dt cb ctx =
     (heap s (allocated s))
       \<lparr>pluginContextPtr := ctx,
        info := i1\<lparr>sensorId := RegisteredSensorCount s, type := dt\<rparr>,
        callbacks := (callbacks (heap s (allocated s)))
           \<lparr>configCb := configCb cb, sample := sample cb\<rparr>\<rparr>"

subsection \<open>Vocabulary of the statements\<close>

text \<open>The creation of a config output and the subscription of a push handler.\<close>

fun isConfigSetup :: "event \<Rightarrow> bool" where
  "isConfigSetup (Hub_CreateOutput _ _ _) = True"
| "isConfigSetup (Hub_AddJsonPushHandler _ _) = True"
| "isConfigSetup _ = False"

text \<open>
  A descriptor is valid when its three required members are extracted and fit the
  fields of \<^verbatim>\<open>sensorInfo_t\<close>.
\<close>

definition validDescriptor :: "externals \<Rightarrow> string \<Rightarrow> bool" where
  "validDescriptor env doc =
     ((fst (json_Extract env 128 doc ''name'') = LE_OK \<and>
       length (snd (json_Extract env 128 doc ''name'')) < MAX_RESOURCE_NAME_LEN) \<and>
      (fst (json_Extract env 128 doc ''path'') = LE_OK \<and>
       length (snd (json_Extract env 128 doc ''path'')) < IO_MAX_RESOURCE_PATH_LEN env) \<and>
      (fst (json_Extract env 128 doc ''unit'') = LE_OK \<and>
       length (snd (json_Extract env 128 doc ''unit'')) < IO_MAX_UNITS_NAME_LEN env))"

text \<open>The union holds a callback of the function type that the data type asks for.\<close>

fun sampleMatches :: "'w sample_u \<Rightarrow> io_DataType_t \<Rightarrow> bool" where
  "sampleMatches u IO_DATA_TYPE_BOOLEAN = (boolCb u \<noteq> None)"
| "sampleMatches u IO_DATA_TYPE_NUMERIC = (numericCb u \<noteq> None)"
| "sampleMatches u IO_DATA_TYPE_STRING = (stringCb u \<noteq> None)"
| "sampleMatches u IO_DATA_TYPE_JSON = (jsonCb u \<noteq> None)"
| "sampleMatches u IO_DATA_TYPE_TRIGGER = False"

text \<open>A Data Hub and a periodicSensor that accept every creation.\<close>

definition hubAccepts :: "externals \<Rightarrow> bool" where
  "hubAccepts env =
     (\<forall>tr p ty u.
        io_CreateInput env tr p ty u \<in> {LE_OK, LE_DUPLICATE} \<and>
        io_CreateOutput env tr p ty u \<in> {LE_OK, LE_DUPLICATE} \<and>
        (\<forall>h. psensor_Create env tr p ty u h \<noteq> None))"

subsection \<open>A plugin's registration loop\<close>

text \<open>
  The plugins register their sensors one after the other (the loop of the device
  plugin's \<^verbatim>\<open>COMPONENT_INIT\<close>); a registration that ends the process ends the loop.
\<close>

type_synonym 'w request =
  "string \<times> sensorfwDataType_t \<times> 'w sensorfwCallbacks_t \<times> nat option"

fun registerAll ::
  "externals \<Rightarrow> 'w request list \<Rightarrow> 'w fw \<Rightarrow> (abort + le_result_t) list \<times> 'w fw" where
  "registerAll env [] s = ([], s)"
| "registerAll env ((doc, t, cb, ctx) # reqs) s =
     (case sensorFw_RegisterCallback env doc t cb ctx s of
        (Inl a, s1) \<Rightarrow> ([Inl a], s1)
      | (Inr r, s1) \<Rightarrow>
          (case registerAll env reqs s1 of (rs, s2) \<Rightarrow> (Inr r # rs, s2)))"

text \<open>A request with a valid descriptor, one of the four callback types and its callback.\<close>

definition validRequest :: "externals \<Rightarrow> 'w request \<Rightarrow> bool" where
  "validRequest env req =
     (case req of (doc, t, cb, ctx) \<Rightarrow>
        validDescriptor env doc \<and>
        (case dataTypeOf t of None \<Rightarrow> False | Some dt \<Rightarrow> sampleMatches (sample cb) dt))"

subsection \<open>A small environment to run the functions in\<close>

text \<open>
  Four descriptors, a stand-in for the JSON library that knows their members, a Data Hub
  that gives a fixed answer to the creation of inputs and periodic sensors and another
  to the creation of outputs, and callbacks over a world that counts the reads.
\<close>

definition docOnce :: string where
  \<open>docOnce = ''{"name":"sn","path":"device/SN","readOnce":true,"unit":""}''\<close>

definition docPeriodic :: string where
  \<open>docPeriodic = ''{"name":"temp","path":"device/temperature","unit":"degC"}''\<close>

definition docNoPath :: string where
  \<open>docNoPath = ''{"name":"temp","unit":"degC"}''\<close>

definition docLongName :: string where
  \<open>docLongName = ''{"name":"a-name-of-twenty-one.","path":"device/x","unit":""}''\<close>

text \<open>A configuration edit, as an external actor pushes it to the Hub.\<close>

definition docEdit :: string where
  \<open>docEdit = ''{"x": 5}''\<close>

definition demoFields :: "string \<Rightarrow> (string \<times> string) list option" where
  "demoFields doc =
     (if doc = docOnce then
        Some [(''name'', ''sn''), (''path'', ''device/SN''), (''readOnce'', ''true''),
              (''unit'', [])]
      else if doc = docPeriodic then
        Some [(''name'', ''temp''), (''path'', ''device/temperature''), (''unit'', ''degC'')]
      else if doc = docNoPath then
        Some [(''name'', ''temp''), (''unit'', ''degC'')]
      else if doc = docLongName then
        Some [(''name'', ''a-name-of-twenty-one.''), (''path'', ''device/x''), (''unit'', [])]
      else None)"

definition demoExtract :: "nat \<Rightarrow> string \<Rightarrow> string \<Rightarrow> le_result_t \<times> string" where
  "demoExtract n doc member =
     (case demoFields doc of
        None \<Rightarrow> (LE_FORMAT_ERROR, [])
      | Some fs \<Rightarrow>
          (case map_of fs member of
             None \<Rightarrow> (LE_NOT_FOUND, [])
           | Some v \<Rightarrow> if length v < n then (LE_OK, v) else (LE_OVERFLOW, [])))"

definition demoEnv :: "le_result_t \<Rightarrow> le_result_t \<Rightarrow> externals" where
  "demoEnv inputAnswer outputAnswer =
     \<lparr>json_Extract = demoExtract,
      json_ConvertToBoolean = (\<lambda>v. v = ''true''),
      io_CreateInput = (\<lambda>_ _ _ _. inputAnswer),
      io_CreateOutput = (\<lambda>_ _ _ _. outputAnswer),
      psensor_Create = (\<lambda>_ _ _ _ hp. if inputAnswer = LE_OK then Some hp else None),
      IO_MAX_RESOURCE_PATH_LEN = 79,
      IO_MAX_UNITS_NAME_LEN = 23\<rparr>"

text \<open>
  A Data Hub whose answer depends on what it has seen: it creates an output only as
  long as nothing else has been created or pushed, and has no memory for one after.
\<close>

definition demoEnvFull :: externals where
  "demoEnvFull =
     (demoEnv LE_OK LE_OK)
       \<lparr>io_CreateOutput := (\<lambda>tr _ _ _. if tr = [] then LE_OK else LE_NO_MEMORY)\<rparr>"

definition demoNumeric :: "le_result_t \<Rightarrow> nat pfNumeric" where
  "demoNumeric r = (\<lambda>len ctx w. ((r, 42), Suc w))"

definition demoString :: "le_result_t \<Rightarrow> nat pfString" where
  "demoString r = (\<lambda>buf len ctx w. ((r, ''v1''), Suc w))"

definition demoCallbacks :: "nat sample_u \<Rightarrow> nat pfString option \<Rightarrow> nat sensorfwCallbacks_t" where
  "demoCallbacks u c = \<lparr>infoCb = None, configCb = c, sample = u\<rparr>"

definition demoBlock :: "nat sensorHandler_t" where
  "demoBlock =
     \<lparr>info = \<lparr>sensorId = 0, name = [], path = [], isReadOnce = False, unit = [],
              type = IO_DATA_TYPE_TRIGGER, sensorRef = None\<rparr>,
      callbacks = demoCallbacks (StringCb (demoString LE_FAULT)) None,
      pluginContextPtr = None\<rparr>"

definition demoInit :: "nat fw" where
  "demoInit = COMPONENT_INIT True 0 (\<lambda>_. demoBlock)"

text \<open>
  The state after one periodic, configurable numeric sensor has been registered; its
  callbacks answer \<open>r\<close>.
\<close>

definition demoRegistered :: "le_result_t \<Rightarrow> nat fw" where
  "demoRegistered r =
     snd (sensorFw_RegisterCallback (demoEnv LE_OK LE_OK) docPeriodic SF_CB_NUMERIC
            (demoCallbacks (NumericCb (demoNumeric r)) (Some (demoString r))) (Some 7) demoInit)"

text \<open>The state after one read-once string sensor has been registered.\<close>

definition demoOnce :: "le_result_t \<Rightarrow> nat fw" where
  "demoOnce r =
     snd (sensorFw_RegisterCallback (demoEnv LE_OK LE_OK) docOnce SF_CB_STRING
            (demoCallbacks (StringCb (demoString r)) None) None demoInit)"

definition demoRequest :: "nat request" where
  "demoRequest =
     (docPeriodic, SF_CB_NUMERIC,
      demoCallbacks (NumericCb (demoNumeric LE_OK)) (Some (demoString LE_OK)), Some 7)"

section \<open>Properties\<close>

subsection \<open>PushData against the design's dispatch\<close>

lemmas push_defs = io_PushBoolean_def io_PushNumeric_def io_PushString_def io_PushJson_def
  psensor_PushBoolean_def psensor_PushNumeric_def psensor_PushString_def psensor_PushJson_def

lemmas PushData_defs = PushData_def PushData_boolean_def PushData_numeric_def
  PushData_string_def PushData_json_def

lemma PushData_selected:
  assumes "selectedSample (sample (callbacks (heap s h))) (type (info (heap s h)))
             (pluginContextPtr (heap s h)) (plugin s) = Some (e, r, v, w)"
  shows "PushData h s =
           (if r = LE_OK
            then (Inr LE_OK, emit (samplePush (info (heap s h)) v) (emit e (s\<lparr>plugin := w\<rparr>)))
            else (Inr LE_FAULT, emit e (s\<lparr>plugin := w\<rparr>)))"
proof (cases "type (info (heap s h))")
  case IO_DATA_TYPE_TRIGGER
  with assms show ?thesis by simp
next
  case IO_DATA_TYPE_BOOLEAN
  with assms show ?thesis
    by (auto simp: PushData_def PushData_boolean_def push_defs Let_def
             split: option.splits prod.splits)
next
  case IO_DATA_TYPE_NUMERIC
  with assms show ?thesis
    by (auto simp: PushData_def PushData_numeric_def push_defs Let_def
             split: option.splits prod.splits)
next
  case IO_DATA_TYPE_STRING
  with assms show ?thesis
    by (auto simp: PushData_def PushData_string_def push_defs Let_def
             split: option.splits prod.splits)
next
  case IO_DATA_TYPE_JSON
  with assms show ?thesis
    by (auto simp: PushData_def PushData_json_def push_defs Let_def
             split: option.splits prod.splits)
qed

lemma PushData_unselected:
  assumes "selectedSample (sample (callbacks (heap s h))) (type (info (heap s h)))
             (pluginContextPtr (heap s h)) (plugin s) = None"
      and "type (info (heap s h)) \<noteq> IO_DATA_TYPE_TRIGGER"
  shows "PushData h s = (Inl UndefinedBehaviour, s)"
  using assms
  by (cases "type (info (heap s h))")
     (auto simp: PushData_defs Let_def split: option.splits prod.splits)

lemma selectedSample_event:
  "selectedSample u dt ctx w = Some (e, r, v, w') \<Longrightarrow> isSampleCall e \<and> isCallback e"
  by (cases dt) (auto split: option.splits prod.splits)

lemma samplePush_is_push:
  "isSamplePush (isReadOnce i) (path i) (samplePush i v) \<and> \<not> isSampleCall (samplePush i v) \<and>
   \<not> isCallback (samplePush i v)"
  by (cases v) auto

subsection \<open>ParseSensorInfo\<close>

lemma ParseSensorInfo_ok_iff:
  "fst (ParseSensorInfo env doc i0) = LE_OK \<longleftrightarrow>
     (fst (json_Extract env 128 doc ''name'') = LE_OK \<and>
      length (snd (json_Extract env 128 doc ''name'')) < MAX_RESOURCE_NAME_LEN) \<and>
     (fst (json_Extract env 128 doc ''path'') = LE_OK \<and>
      length (snd (json_Extract env 128 doc ''path'')) < IO_MAX_RESOURCE_PATH_LEN env) \<and>
     (fst (json_Extract env 128 doc ''unit'') = LE_OK \<and>
      length (snd (json_Extract env 128 doc ''unit'')) < IO_MAX_UNITS_NAME_LEN env)"
  by (auto simp: ParseSensorInfo_def le_utf8_Copy_def Let_def split: prod.splits if_splits)


lemma ParseSensorInfo_ok_fields:
  assumes "ParseSensorInfo env doc i0 = (LE_OK, i)"
  shows "i = i0\<lparr>name := snd (json_Extract env 128 doc ''name''),
                 path := snd (json_Extract env 128 doc ''path''),
                 isReadOnce :=
                   (if fst (json_Extract env 128 doc ''readOnce'') = LE_OK
                    then json_ConvertToBoolean env (snd (json_Extract env 128 doc ''readOnce''))
                    else False),
                 unit := snd (json_Extract env 128 doc ''unit'')\<rparr>"
  using assms
  by (auto simp: ParseSensorInfo_def le_utf8_Copy_def Let_def split: prod.splits if_splits)

subsection \<open>The pool\<close>

lemma inUse_alloc_release:
  "le_mem_ForceAlloc p = (b, p') \<Longrightarrow> inUse (le_mem_Release b p') = inUse p"
  by (auto simp: le_mem_ForceAlloc_def le_mem_Release_def inUse_def split: list.splits)

subsection \<open>sensorFw_RegisterCallback, path by path\<close>

lemma register_parse_failure:
  assumes "fst (ParseSensorInfo env doc (info (heap s (allocated s)))) \<noteq> LE_OK"
  shows "fst (sensorFw_RegisterCallback env doc t cb ctx s) = Inr LE_FAULT \<and>
         RegisteredSensorCount (snd (sensorFw_RegisterCallback env doc t cb ctx s)) =
           RegisteredSensorCount s \<and>
         trace (snd (sensorFw_RegisterCallback env doc t cb ctx s)) = trace s \<and>
         plugin (snd (sensorFw_RegisterCallback env doc t cb ctx s)) = plugin s \<and>
         inUse (SensorHandlerPool (snd (sensorFw_RegisterCallback env doc t cb ctx s))) =
           inUse (SensorHandlerPool s) \<and>
         info (heap (snd (sensorFw_RegisterCallback env doc t cb ctx s)) (allocated s)) =
           snd (ParseSensorInfo env doc (info (heap s (allocated s))))"
  using assms
  by (auto simp: sensorFw_RegisterCallback_def allocated_def putHandler_def Let_def
                 inUse_alloc_release split: prod.splits)

text \<open>The state in which the handler is filled in and the Data Hub entry is still to be made.\<close>

lemma register_unfold:
  assumes "ParseSensorInfo env doc (info (heap s (allocated s))) = (LE_OK, i1)"
      and "dataTypeOf t = Some dt"
  shows "sensorFw_RegisterCallback env doc t cb ctx s =
           registerTail env cb (allocated s)
             (s\<lparr>SensorHandlerPool := snd (le_mem_ForceAlloc (SensorHandlerPool s)),
                heap := (heap s)(allocated s :=
                  (heap s (allocated s))
                  \<lparr>pluginContextPtr := ctx,
                   info := i1\<lparr>sensorId := RegisteredSensorCount s, type := dt\<rparr>,
                   callbacks := (callbacks (heap s (allocated s)))
                      \<lparr>configCb := configCb cb, sample := sample cb\<rparr>\<rparr>)\<rparr>)"
  using assms
  by (auto simp: sensorFw_RegisterCallback_def allocated_def putHandler_def Let_def
           split: prod.splits)

lemma register_bad_type:
  assumes "fst (ParseSensorInfo env doc (info (heap s (allocated s)))) = LE_OK"
      and "dataTypeOf t = None"
  shows "fst (sensorFw_RegisterCallback env doc t cb ctx s) = Inr LE_FAULT \<and>
         RegisteredSensorCount (snd (sensorFw_RegisterCallback env doc t cb ctx s)) =
           RegisteredSensorCount s \<and>
         trace (snd (sensorFw_RegisterCallback env doc t cb ctx s)) = trace s \<and>
         SensorHandlerPool (snd (sensorFw_RegisterCallback env doc t cb ctx s)) =
           snd (le_mem_ForceAlloc (SensorHandlerPool s)) \<and>
         info (heap (snd (sensorFw_RegisterCallback env doc t cb ctx s)) (allocated s)) =
           (snd (ParseSensorInfo env doc (info (heap s (allocated s)))))
             \<lparr>sensorId := RegisteredSensorCount s\<rparr>"
  using assms
  by (auto simp: sensorFw_RegisterCallback_def allocated_def putHandler_def Let_def
           split: prod.splits)

subsection \<open>AddDataHubEntry and the rest of the registration\<close>

lemma AddDataHubEntry_readOnce:
  assumes "isReadOnce (info (heap s h))"
      and "selectedSample (sample (callbacks (heap s h))) (type (info (heap s h)))
             (pluginContextPtr (heap s h)) (plugin s) = Some (e, r, v, w)"
      and "io_CreateInput env (trace s) (path (info (heap s h))) (type (info (heap s h)))
             (unit (info (heap s h))) \<in> {LE_OK, LE_DUPLICATE}"
  shows "AddDataHubEntry env h s =
           (Inr (),
            s\<lparr>plugin := w,
              trace := trace s @
                [Hub_CreateInput (path (info (heap s h))) (type (info (heap s h)))
                   (unit (info (heap s h))), e] @
                (if r = LE_OK
                 then [samplePush ((info (heap s h))\<lparr>sensorRef := None\<rparr>) v] else []),
              heap := (heap s)(h := (heap s h)
                         \<lparr>info := (info (heap s h))\<lparr>sensorRef := None\<rparr>\<rparr>)\<rparr>)"
proof -
  let ?i = "info (heap s h)"
  let ?s2 = "emit (Hub_CreateInput (path ?i) (type ?i) (unit ?i)) (setSensorRef h None s)"
  have sel2: "selectedSample (sample (callbacks (heap ?s2 h))) (type (info (heap ?s2 h)))
             (pluginContextPtr (heap ?s2 h)) (plugin ?s2) = Some (e, r, v, w)"
    using assms(2) by (simp add: emit_def setSensorRef_def)
  have "AddDataHubEntry env h s = dropResult (PushData h ?s2)"
    using assms(1,3) by (auto simp: AddDataHubEntry_def Let_def setSensorRef_def emit_def)
  then have "AddDataHubEntry env h s =
      dropResult (if r = LE_OK
            then (Inr LE_OK, emit (samplePush (info (heap ?s2 h)) v) (emit e (?s2\<lparr>plugin := w\<rparr>)))
            else (Inr LE_FAULT, emit e (?s2\<lparr>plugin := w\<rparr>)))"
    by (simp only: PushData_selected [OF sel2])
  then show ?thesis
    by (simp add: dropResult_def emit_def setSensorRef_def)
qed

lemma AddDataHubEntry_readOnce_refused:
  assumes "isReadOnce (info (heap s h))"
      and "io_CreateInput env (trace s) (path (info (heap s h))) (type (info (heap s h)))
             (unit (info (heap s h))) \<notin> {LE_OK, LE_DUPLICATE}"
  shows "fst (AddDataHubEntry env h s) = Inl AssertFailed"
  using assms by (auto simp: AddDataHubEntry_def Let_def setSensorRef_def emit_def)

lemma AddDataHubEntry_periodic:
  assumes "\<not> isReadOnce (info (heap s h))"
      and "selectedSample (sample (callbacks (heap s h))) (type (info (heap s h)))
             (pluginContextPtr (heap s h)) (plugin s) = Some (e, r, v, w)"
      and "psensor_Create env (trace s) (path (info (heap s h))) (type (info (heap s h)))
             (unit (info (heap s h))) h = Some ref"
  shows "AddDataHubEntry env h s =
           (Inr (),
            s\<lparr>plugin := w,
              trace := trace s @
                [Psensor_Create (path (info (heap s h))) (type (info (heap s h)))
                   (unit (info (heap s h))) h,
                 Hub_PushBoolean (resourcePathOf env (path (info (heap s h))) ''enable'') True,
                 Hub_PushNumeric (resourcePathOf env (path (info (heap s h))) ''period'')
                   DEFAULT_SAMPLING_PERIOD_SEC,
                 e] @
                (if r = LE_OK
                 then [samplePush ((info (heap s h))\<lparr>sensorRef := Some ref\<rparr>) v] else []),
              heap := (heap s)(h := (heap s h)
                         \<lparr>info := (info (heap s h))\<lparr>sensorRef := Some ref\<rparr>\<rparr>)\<rparr>)"
proof -
  let ?i = "info (heap s h)"
  let ?s1 = "emit (Psensor_Create (path ?i) (type ?i) (unit ?i) h) (setSensorRef h (Some ref) s)"
  let ?s3 = "io_PushNumeric (resourcePathOf env (path ?i) ''period'') DEFAULT_SAMPLING_PERIOD_SEC
               (io_PushBoolean (resourcePathOf env (path ?i) ''enable'') True ?s1)"
  have sel3: "selectedSample (sample (callbacks (heap ?s3 h))) (type (info (heap ?s3 h)))
             (pluginContextPtr (heap ?s3 h)) (plugin ?s3) = Some (e, r, v, w)"
    using assms(2) by (simp add: emit_def setSensorRef_def push_defs)
  have "AddDataHubEntry env h s = dropResult (PushData h ?s3)"
    using assms(1,3) by (simp add: AddDataHubEntry_def Let_def)
  then have "AddDataHubEntry env h s =
      dropResult (if r = LE_OK
            then (Inr LE_OK, emit (samplePush (info (heap ?s3 h)) v) (emit e (?s3\<lparr>plugin := w\<rparr>)))
            else (Inr LE_FAULT, emit e (?s3\<lparr>plugin := w\<rparr>)))"
    by (simp only: PushData_selected [OF sel3])
  then show ?thesis
    by (simp add: dropResult_def emit_def setSensorRef_def push_defs)
qed

lemma AddDataHubEntry_periodic_refused:
  assumes "\<not> isReadOnce (info (heap s h))"
      and "psensor_Create env (trace s) (path (info (heap s h))) (type (info (heap s h)))
             (unit (info (heap s h))) h = None"
  shows "fst (AddDataHubEntry env h s) = Inl AssertFailed"
  using assms by (auto simp: AddDataHubEntry_def Let_def setSensorRef_def emit_def)

lemma AddDataHubEntry_unselected:
  assumes "selectedSample (sample (callbacks (heap s h))) (type (info (heap s h)))
             (pluginContextPtr (heap s h)) (plugin s) = None"
      and "type (info (heap s h)) \<noteq> IO_DATA_TYPE_TRIGGER"
  shows "\<exists>a. fst (AddDataHubEntry env h s) = Inl a"
proof -
  have u: "PushData h s' = (Inl UndefinedBehaviour, s')"
    if "heap s' h = (heap s h)\<lparr>info := (info (heap s h))\<lparr>sensorRef := x\<rparr>\<rparr>"
       "plugin s' = plugin s" for s' x
    using that assms by (intro PushData_unselected) simp_all
  show ?thesis
    by (auto simp: AddDataHubEntry_def Let_def dropResult_def u setSensorRef_def emit_def
                   push_defs)
qed


lemma PushConfig_result:
  assumes "configCb (callbacks (heap s h)) = Some f"
      and "f None MAX_RES_STRING_LEN (pluginContextPtr (heap s h)) (plugin s) = ((cr, cv), w2)"
  shows "PushConfig env h s =
           (if cr = LE_OK
            then (Inr LE_OK,
                  s\<lparr>plugin := w2,
                    trace := trace s @
                      [Call_configCb None MAX_RES_STRING_LEN (pluginContextPtr (heap s h)),
                       Hub_PushJson (resourcePathOf env (path (info (heap s h))) ''config'') cv]\<rparr>)
            else (Inr LE_FAULT,
                  s\<lparr>plugin := w2,
                    trace := trace s @
                      [Call_configCb None MAX_RES_STRING_LEN (pluginContextPtr (heap s h))]\<rparr>))"
  using assms by (simp add: PushConfig_def Let_def emit_def io_PushJson_def)

lemma registerTail_readOnce:
  assumes "isReadOnce (info (heap s h))"
      and "selectedSample (sample (callbacks (heap s h))) (type (info (heap s h)))
             (pluginContextPtr (heap s h)) (plugin s) = Some (e, r, v, w)"
      and "io_CreateInput env (trace s) (path (info (heap s h))) (type (info (heap s h)))
             (unit (info (heap s h))) \<in> {LE_OK, LE_DUPLICATE}"
  shows "registerTail env cb h s =
           (Inr LE_OK,
            s\<lparr>plugin := w,
              trace := trace s @
                [Hub_CreateInput (path (info (heap s h))) (type (info (heap s h)))
                   (unit (info (heap s h))), e] @
                (if r = LE_OK
                 then [samplePush ((info (heap s h))\<lparr>sensorRef := None\<rparr>) v] else []),
              heap := (heap s)(h := (heap s h)
                         \<lparr>info := (info (heap s h))\<lparr>sensorRef := None\<rparr>\<rparr>),
              RegisteredSensorCount := RegisteredSensorCount s + 1\<rparr>)"
  using assms(1)
  by (simp add: registerTail_def AddDataHubEntry_readOnce [OF assms] Let_def)

lemma registerTail_periodic_plain:
  assumes "\<not> isReadOnce (info (heap s h))"
      and "selectedSample (sample (callbacks (heap s h))) (type (info (heap s h)))
             (pluginContextPtr (heap s h)) (plugin s) = Some (e, r, v, w)"
      and "psensor_Create env (trace s) (path (info (heap s h))) (type (info (heap s h)))
             (unit (info (heap s h))) h = Some ref"
      and "configCb cb = None"
  shows "registerTail env cb h s =
           (Inr LE_OK,
            s\<lparr>plugin := w,
              trace := trace s @
                [Psensor_Create (path (info (heap s h))) (type (info (heap s h)))
                   (unit (info (heap s h))) h,
                 Hub_PushBoolean (resourcePathOf env (path (info (heap s h))) ''enable'') True,
                 Hub_PushNumeric (resourcePathOf env (path (info (heap s h))) ''period'')
                   DEFAULT_SAMPLING_PERIOD_SEC,
                 e] @
                (if r = LE_OK
                 then [samplePush ((info (heap s h))\<lparr>sensorRef := Some ref\<rparr>) v] else []),
              heap := (heap s)(h := (heap s h)
                         \<lparr>info := (info (heap s h))\<lparr>sensorRef := Some ref\<rparr>\<rparr>),
              RegisteredSensorCount := RegisteredSensorCount s + 1\<rparr>)"
  using assms(1,4)
  by (simp add: registerTail_def AddDataHubEntry_periodic [OF assms(1,2,3)] Let_def)

lemma registerTail_periodic_config:
  assumes i: "i = info (heap s h)"
      and cfg: "cfg = resourcePathOf env (path i) ''config''"
      and t1: "t1 = trace s @
                [Psensor_Create (path i) (type i) (unit i) h,
                 Hub_PushBoolean (resourcePathOf env (path i) ''enable'') True,
                 Hub_PushNumeric (resourcePathOf env (path i) ''period'')
                   DEFAULT_SAMPLING_PERIOD_SEC,
                 e] @ (if r = LE_OK then [samplePush (i\<lparr>sensorRef := Some ref\<rparr>) v] else [])"
      and ro: "\<not> isReadOnce i"
      and sel: "selectedSample (sample (callbacks (heap s h))) (type i)
             (pluginContextPtr (heap s h)) (plugin s) = Some (e, r, v, w)"
      and ps: "psensor_Create env (trace s) (path i) (type i) (unit i) h = Some ref"
      and cb: "configCb cb = Some g"
      and hc: "configCb (callbacks (heap s h)) = Some f"
      and fr: "f None MAX_RES_STRING_LEN (pluginContextPtr (heap s h)) w = ((cr, cv), w2)"
  shows "io_CreateOutput env t1 cfg IO_DATA_TYPE_JSON [] \<in> {LE_OK, LE_DUPLICATE} \<Longrightarrow>
         registerTail env cb h s =
           (Inr LE_OK,
            s\<lparr>plugin := w2,
              trace := t1 @
                [Hub_CreateOutput cfg IO_DATA_TYPE_JSON [],
                 Call_configCb None MAX_RES_STRING_LEN (pluginContextPtr (heap s h))] @
                (if cr = LE_OK then [Hub_PushJson cfg cv] else []) @
                [Hub_AddJsonPushHandler cfg h],
              heap := (heap s)(h := (heap s h)\<lparr>info := i\<lparr>sensorRef := Some ref\<rparr>\<rparr>),
              RegisteredSensorCount := RegisteredSensorCount s + 1\<rparr>)"
    and "io_CreateOutput env t1 cfg IO_DATA_TYPE_JSON [] \<notin> {LE_OK, LE_DUPLICATE} \<Longrightarrow>
         fst (registerTail env cb h s) = Inl AssertFailed"
proof -
  note A = AddDataHubEntry_periodic [OF ro [unfolded i] sel [unfolded i] ps [unfolded i]]
  let ?sA = "snd (AddDataHubEntry env h s)"
  let ?s3 = "emit (Hub_CreateOutput cfg IO_DATA_TYPE_JSON [])
               (?sA\<lparr>RegisteredSensorCount := RegisteredSensorCount ?sA + 1\<rparr>)"
  have c3: "configCb (callbacks (heap ?s3 h)) = Some f"
    using hc by (simp add: A emit_def)
  have f3: "f None MAX_RES_STRING_LEN (pluginContextPtr (heap ?s3 h)) (plugin ?s3) = ((cr, cv), w2)"
    using fr by (simp add: A emit_def)
  note P = PushConfig_result [OF c3 f3, of env]
  show "io_CreateOutput env t1 cfg IO_DATA_TYPE_JSON [] \<in> {LE_OK, LE_DUPLICATE} \<Longrightarrow>
         registerTail env cb h s =
           (Inr LE_OK,
            s\<lparr>plugin := w2,
              trace := t1 @
                [Hub_CreateOutput cfg IO_DATA_TYPE_JSON [],
                 Call_configCb None MAX_RES_STRING_LEN (pluginContextPtr (heap s h))] @
                (if cr = LE_OK then [Hub_PushJson cfg cv] else []) @
                [Hub_AddJsonPushHandler cfg h],
              heap := (heap s)(h := (heap s h)\<lparr>info := i\<lparr>sensorRef := Some ref\<rparr>\<rparr>),
              RegisteredSensorCount := RegisteredSensorCount s + 1\<rparr>)"
    using ro cb P unfolding i cfg t1
    by (auto simp add: registerTail_def A Let_def emit_def)
  show "io_CreateOutput env t1 cfg IO_DATA_TYPE_JSON [] \<notin> {LE_OK, LE_DUPLICATE} \<Longrightarrow>
         fst (registerTail env cb h s) = Inl AssertFailed"
    using ro cb unfolding i cfg t1
    by (auto simp add: registerTail_def A Let_def emit_def)
qed


lemma PushData_frame:
  "heap (snd (PushData h s)) = heap s \<and>
   SensorHandlerPool (snd (PushData h s)) = SensorHandlerPool s \<and>
   RegisteredSensorCount (snd (PushData h s)) = RegisteredSensorCount s"
  by (cases "type (info (heap s h))")
     (auto simp: PushData_defs push_defs emit_def Let_def split: option.splits prod.splits)

lemma registerTail_abort:
  "fst (AddDataHubEntry env h s) = Inl a \<Longrightarrow> fst (registerTail env cb h s) = Inl a"
  by (cases "AddDataHubEntry env h s") (auto simp: registerTail_def)

lemma resourcePathOf_fits:
  "length p < IO_MAX_RESOURCE_PATH_LEN env \<Longrightarrow> length leaf < MAX_RESOURCE_NAME_LEN - 1 \<Longrightarrow>
   resourcePathOf env p leaf = p @ ''/'' @ leaf"
  by (simp add: resourcePathOf_def snprintf_path_def MAX_RESOURCE_NAME_LEN_def)

lemma ParseSensorInfo_path_fits:
  "ParseSensorInfo env doc i0 = (LE_OK, i) \<Longrightarrow> length (path i) < IO_MAX_RESOURCE_PATH_LEN env"
  using ParseSensorInfo_ok_iff [of env doc i0] ParseSensorInfo_ok_fields [of env doc i0 i]
  by simp

lemma register_read_once:
  assumes parse: "ParseSensorInfo env doc (info (heap s (allocated s))) = (LE_OK, i1)"
      and dt: "dataTypeOf t = Some dt"
      and sel: "selectedSample (sample cb) dt ctx (plugin s) = Some (e, r, v, w)"
      and ro: "isReadOnce i1"
      and good: "io_CreateInput env (trace s) (path i1) dt (unit i1) \<in> {LE_OK, LE_DUPLICATE}"
  shows "sensorFw_RegisterCallback env doc t cb ctx s =
           (Inr LE_OK,
            s\<lparr>plugin := w,
              trace := trace s @ [Hub_CreateInput (path i1) dt (unit i1), e] @
                (if r = LE_OK
                 then [samplePush (i1\<lparr>sensorId := RegisteredSensorCount s, type := dt,
                                      sensorRef := None\<rparr>) v]
                 else []),
              SensorHandlerPool := snd (le_mem_ForceAlloc (SensorHandlerPool s)),
              heap := (heap s)(allocated s := (filled s i1 dt cb ctx)
                 \<lparr>info := i1\<lparr>sensorId := RegisteredSensorCount s, type := dt,
                               sensorRef := None\<rparr>\<rparr>),
              RegisteredSensorCount := RegisteredSensorCount s + 1\<rparr>)"
proof -
  let ?h = "allocated s"
  let ?P = "s\<lparr>SensorHandlerPool := snd (le_mem_ForceAlloc (SensorHandlerPool s)),
              heap := (heap s)(?h := filled s i1 dt cb ctx)\<rparr>"
  have unf: "sensorFw_RegisterCallback env doc t cb ctx s = registerTail env cb ?h ?P"
    using register_unfold [OF parse dt, of cb ctx] by (simp add: filled_def)
  have selP: "selectedSample (sample (callbacks (heap ?P ?h))) (type (info (heap ?P ?h)))
                (pluginContextPtr (heap ?P ?h)) (plugin ?P) = Some (e, r, v, w)"
    using sel by (simp add: filled_def)
  have roP: "isReadOnce (info (heap ?P ?h))" using ro by (simp add: filled_def)
  have g: "io_CreateInput env (trace ?P) (path (info (heap ?P ?h)))
             (type (info (heap ?P ?h))) (unit (info (heap ?P ?h))) \<in> {LE_OK, LE_DUPLICATE}"
    using good by (simp add: filled_def)
  show ?thesis
    unfolding unf registerTail_readOnce [OF roP selP g, of cb]
    by (simp add: filled_def)
qed

lemma register_read_once_refused:
  assumes parse: "ParseSensorInfo env doc (info (heap s (allocated s))) = (LE_OK, i1)"
      and dt: "dataTypeOf t = Some dt"
      and ro: "isReadOnce i1"
      and bad: "io_CreateInput env (trace s) (path i1) dt (unit i1) \<notin> {LE_OK, LE_DUPLICATE}"
  shows "fst (sensorFw_RegisterCallback env doc t cb ctx s) = Inl AssertFailed"
proof -
  let ?h = "allocated s"
  let ?P = "s\<lparr>SensorHandlerPool := snd (le_mem_ForceAlloc (SensorHandlerPool s)),
              heap := (heap s)(?h := filled s i1 dt cb ctx)\<rparr>"
  have unf: "sensorFw_RegisterCallback env doc t cb ctx s = registerTail env cb ?h ?P"
    using register_unfold [OF parse dt, of cb ctx] by (simp add: filled_def)
  have roP: "isReadOnce (info (heap ?P ?h))" using ro by (simp add: filled_def)
  have b: "io_CreateInput env (trace ?P) (path (info (heap ?P ?h)))
             (type (info (heap ?P ?h))) (unit (info (heap ?P ?h))) \<notin> {LE_OK, LE_DUPLICATE}"
    using bad by (simp add: filled_def)
  show ?thesis
    unfolding unf by (rule registerTail_abort [OF AddDataHubEntry_readOnce_refused [OF roP b]])
qed

lemma register_periodic_refused:
  assumes parse: "ParseSensorInfo env doc (info (heap s (allocated s))) = (LE_OK, i1)"
      and dt: "dataTypeOf t = Some dt"
      and ro: "\<not> isReadOnce i1"
      and bad: "psensor_Create env (trace s) (path i1) dt (unit i1) (allocated s) = None"
  shows "fst (sensorFw_RegisterCallback env doc t cb ctx s) = Inl AssertFailed"
proof -
  let ?h = "allocated s"
  let ?P = "s\<lparr>SensorHandlerPool := snd (le_mem_ForceAlloc (SensorHandlerPool s)),
              heap := (heap s)(?h := filled s i1 dt cb ctx)\<rparr>"
  have unf: "sensorFw_RegisterCallback env doc t cb ctx s = registerTail env cb ?h ?P"
    using register_unfold [OF parse dt, of cb ctx] by (simp add: filled_def)
  have roP: "\<not> isReadOnce (info (heap ?P ?h))" using ro by (simp add: filled_def)
  have b: "psensor_Create env (trace ?P) (path (info (heap ?P ?h)))
             (type (info (heap ?P ?h))) (unit (info (heap ?P ?h))) ?h = None"
    using bad by (simp add: filled_def)
  show ?thesis
    unfolding unf by (rule registerTail_abort [OF AddDataHubEntry_periodic_refused [OF roP b]])
qed

lemma register_periodic_plain:
  assumes parse: "ParseSensorInfo env doc (info (heap s (allocated s))) = (LE_OK, i1)"
      and dt: "dataTypeOf t = Some dt"
      and sel: "selectedSample (sample cb) dt ctx (plugin s) = Some (e, r, v, w)"
      and ro: "\<not> isReadOnce i1"
      and ps: "psensor_Create env (trace s) (path i1) dt (unit i1) (allocated s) = Some ref"
      and nc: "configCb cb = None"
  shows "sensorFw_RegisterCallback env doc t cb ctx s =
           (Inr LE_OK,
            s\<lparr>plugin := w,
              trace := trace s @
                [Psensor_Create (path i1) dt (unit i1) (allocated s),
                 Hub_PushBoolean (resourcePathOf env (path i1) ''enable'') True,
                 Hub_PushNumeric (resourcePathOf env (path i1) ''period'')
                   DEFAULT_SAMPLING_PERIOD_SEC,
                 e] @
                (if r = LE_OK
                 then [samplePush (i1\<lparr>sensorId := RegisteredSensorCount s, type := dt,
                                      sensorRef := Some ref\<rparr>) v]
                 else []),
              SensorHandlerPool := snd (le_mem_ForceAlloc (SensorHandlerPool s)),
              heap := (heap s)(allocated s := (filled s i1 dt cb ctx)
                 \<lparr>info := i1\<lparr>sensorId := RegisteredSensorCount s, type := dt,
                               sensorRef := Some ref\<rparr>\<rparr>),
              RegisteredSensorCount := RegisteredSensorCount s + 1\<rparr>)"
proof -
  let ?h = "allocated s"
  let ?P = "s\<lparr>SensorHandlerPool := snd (le_mem_ForceAlloc (SensorHandlerPool s)),
              heap := (heap s)(?h := filled s i1 dt cb ctx)\<rparr>"
  have unf: "sensorFw_RegisterCallback env doc t cb ctx s = registerTail env cb ?h ?P"
    using register_unfold [OF parse dt, of cb ctx] by (simp add: filled_def)
  have selP: "selectedSample (sample (callbacks (heap ?P ?h))) (type (info (heap ?P ?h)))
                (pluginContextPtr (heap ?P ?h)) (plugin ?P) = Some (e, r, v, w)"
    using sel by (simp add: filled_def)
  have roP: "\<not> isReadOnce (info (heap ?P ?h))" using ro by (simp add: filled_def)
  have g: "psensor_Create env (trace ?P) (path (info (heap ?P ?h)))
             (type (info (heap ?P ?h))) (unit (info (heap ?P ?h))) ?h = Some ref"
    using ps by (simp add: filled_def)
  show ?thesis
    unfolding unf registerTail_periodic_plain [OF roP selP g nc]
    by (simp add: filled_def)
qed

lemma register_periodic_config:
  assumes parse: "ParseSensorInfo env doc (info (heap s (allocated s))) = (LE_OK, i1)"
      and dt: "dataTypeOf t = Some dt"
      and sel: "selectedSample (sample cb) dt ctx (plugin s) = Some (e, r, v, w)"
      and ro: "\<not> isReadOnce i1"
      and ps: "psensor_Create env (trace s) (path i1) dt (unit i1) (allocated s) = Some ref"
      and cf: "configCb cb = Some f"
      and fr: "f None MAX_RES_STRING_LEN ctx w = ((cr, cv), w2)"
      and i: "i = i1\<lparr>sensorId := RegisteredSensorCount s, type := dt, sensorRef := Some ref\<rparr>"
      and cfg: "cfg = resourcePathOf env (path i1) ''config''"
      and t1: "t1 = trace s @
                [Psensor_Create (path i1) dt (unit i1) (allocated s),
                 Hub_PushBoolean (resourcePathOf env (path i1) ''enable'') True,
                 Hub_PushNumeric (resourcePathOf env (path i1) ''period'')
                   DEFAULT_SAMPLING_PERIOD_SEC,
                 e] @ (if r = LE_OK then [samplePush i v] else [])"
  shows "io_CreateOutput env t1 cfg IO_DATA_TYPE_JSON [] \<in> {LE_OK, LE_DUPLICATE} \<Longrightarrow>
         sensorFw_RegisterCallback env doc t cb ctx s =
           (Inr LE_OK,
            s\<lparr>plugin := w2,
              trace := t1 @
                [Hub_CreateOutput cfg IO_DATA_TYPE_JSON [],
                 Call_configCb None MAX_RES_STRING_LEN ctx] @
                (if cr = LE_OK then [Hub_PushJson cfg cv] else []) @
                [Hub_AddJsonPushHandler cfg (allocated s)],
              SensorHandlerPool := snd (le_mem_ForceAlloc (SensorHandlerPool s)),
              heap := (heap s)(allocated s := (filled s i1 dt cb ctx)\<lparr>info := i\<rparr>),
              RegisteredSensorCount := RegisteredSensorCount s + 1\<rparr>)"
    and "io_CreateOutput env t1 cfg IO_DATA_TYPE_JSON [] \<notin> {LE_OK, LE_DUPLICATE} \<Longrightarrow>
         fst (sensorFw_RegisterCallback env doc t cb ctx s) = Inl AssertFailed"
proof -
  let ?h = "allocated s"
  let ?P = "s\<lparr>SensorHandlerPool := snd (le_mem_ForceAlloc (SensorHandlerPool s)),
              heap := (heap s)(?h := filled s i1 dt cb ctx)\<rparr>"
  have unf: "sensorFw_RegisterCallback env doc t cb ctx s = registerTail env cb ?h ?P"
    using register_unfold [OF parse dt, of cb ctx] by (simp add: filled_def)
  have selP: "selectedSample (sample (callbacks (heap ?P ?h))) (type (info (heap ?P ?h)))
                (pluginContextPtr (heap ?P ?h)) (plugin ?P) = Some (e, r, v, w)"
    using sel by (simp add: filled_def)
  have roP: "\<not> isReadOnce (info (heap ?P ?h))" using ro by (simp add: filled_def)
  have g: "psensor_Create env (trace ?P) (path (info (heap ?P ?h)))
             (type (info (heap ?P ?h))) (unit (info (heap ?P ?h))) ?h = Some ref"
    using ps by (simp add: filled_def)
  have cfgP: "cfg = resourcePathOf env (path (info (heap ?P ?h))) ''config''"
    using cfg by (simp add: filled_def)
  have t1P: "t1 = trace ?P @
                [Psensor_Create (path (info (heap ?P ?h))) (type (info (heap ?P ?h)))
                   (unit (info (heap ?P ?h))) ?h,
                 Hub_PushBoolean (resourcePathOf env (path (info (heap ?P ?h))) ''enable'') True,
                 Hub_PushNumeric (resourcePathOf env (path (info (heap ?P ?h))) ''period'')
                   DEFAULT_SAMPLING_PERIOD_SEC,
                 e] @ (if r = LE_OK
                       then [samplePush ((info (heap ?P ?h))\<lparr>sensorRef := Some ref\<rparr>) v] else [])"
    using t1 i by (simp add: filled_def)
  have hc: "configCb (callbacks (heap ?P ?h)) = Some f" using cf by (simp add: filled_def)
  have frP: "f None MAX_RES_STRING_LEN (pluginContextPtr (heap ?P ?h)) w = ((cr, cv), w2)"
    using fr by (simp add: filled_def)
  note T = registerTail_periodic_config [OF refl cfgP t1P roP selP g cf hc frP]
  show "io_CreateOutput env t1 cfg IO_DATA_TYPE_JSON [] \<in> {LE_OK, LE_DUPLICATE} \<Longrightarrow>
         sensorFw_RegisterCallback env doc t cb ctx s =
           (Inr LE_OK,
            s\<lparr>plugin := w2,
              trace := t1 @
                [Hub_CreateOutput cfg IO_DATA_TYPE_JSON [],
                 Call_configCb None MAX_RES_STRING_LEN ctx] @
                (if cr = LE_OK then [Hub_PushJson cfg cv] else []) @
                [Hub_AddJsonPushHandler cfg (allocated s)],
              SensorHandlerPool := snd (le_mem_ForceAlloc (SensorHandlerPool s)),
              heap := (heap s)(allocated s := (filled s i1 dt cb ctx)\<lparr>info := i\<rparr>),
              RegisteredSensorCount := RegisteredSensorCount s + 1\<rparr>)"
    using T(1) unfolding unf by (simp add: filled_def i)
  show "io_CreateOutput env t1 cfg IO_DATA_TYPE_JSON [] \<notin> {LE_OK, LE_DUPLICATE} \<Longrightarrow>
         fst (sensorFw_RegisterCallback env doc t cb ctx s) = Inl AssertFailed"
    using T(2) unfolding unf by simp
qed

lemma register_unselected:
  assumes parse: "ParseSensorInfo env doc (info (heap s (allocated s))) = (LE_OK, i1)"
      and dt: "dataTypeOf t = Some dt"
      and sel: "selectedSample (sample cb) dt ctx (plugin s) = None"
  shows "\<exists>a. fst (sensorFw_RegisterCallback env doc t cb ctx s) = Inl a"
proof -
  let ?h = "allocated s"
  let ?P = "s\<lparr>SensorHandlerPool := snd (le_mem_ForceAlloc (SensorHandlerPool s)),
              heap := (heap s)(?h := filled s i1 dt cb ctx)\<rparr>"
  have unf: "sensorFw_RegisterCallback env doc t cb ctx s = registerTail env cb ?h ?P"
    using register_unfold [OF parse dt, of cb ctx] by (simp add: filled_def)
  have selP: "selectedSample (sample (callbacks (heap ?P ?h))) (type (info (heap ?P ?h)))
                (pluginContextPtr (heap ?P ?h)) (plugin ?P) = None"
    using sel by (simp add: filled_def)
  have ty: "type (info (heap ?P ?h)) \<noteq> IO_DATA_TYPE_TRIGGER"
    using dt by (auto simp: filled_def dataTypeOf_def split: if_splits)
  from AddDataHubEntry_unselected [OF selP ty, of env]
  obtain a where "fst (AddDataHubEntry env ?h ?P) = Inl a" by blast
  then show ?thesis unfolding unf using registerTail_abort by blast
qed


subsection \<open>The small environment, evaluated\<close>

lemma demoFields_eval:
  "demoFields docOnce =
     Some [(''name'', ''sn''), (''path'', ''device/SN''), (''readOnce'', ''true''), (''unit'', [])]"
  "demoFields docPeriodic =
     Some [(''name'', ''temp''), (''path'', ''device/temperature''), (''unit'', ''degC'')]"
  "demoFields docNoPath = Some [(''name'', ''temp''), (''unit'', ''degC'')]"
  "demoFields docLongName =
     Some [(''name'', ''a-name-of-twenty-one.''), (''path'', ''device/x''), (''unit'', [])]"
  by (simp_all add: demoFields_def docOnce_def docPeriodic_def docNoPath_def docLongName_def)

lemma demoExtract_eval:
  "demoExtract 128 docOnce ''name'' = (LE_OK, ''sn'')"
  "demoExtract 128 docOnce ''path'' = (LE_OK, ''device/SN'')"
  "demoExtract 128 docOnce ''readOnce'' = (LE_OK, ''true'')"
  "demoExtract 128 docOnce ''unit'' = (LE_OK, [])"
  "demoExtract 128 docPeriodic ''name'' = (LE_OK, ''temp'')"
  "demoExtract 128 docPeriodic ''path'' = (LE_OK, ''device/temperature'')"
  "demoExtract 128 docPeriodic ''readOnce'' = (LE_NOT_FOUND, [])"
  "demoExtract 128 docPeriodic ''unit'' = (LE_OK, ''degC'')"
  "demoExtract 128 docNoPath ''name'' = (LE_OK, ''temp'')"
  "demoExtract 128 docNoPath ''path'' = (LE_NOT_FOUND, [])"
  "demoExtract 128 docLongName ''name'' = (LE_OK, ''a-name-of-twenty-one.'')"
  "demoExtract 128 docLongName ''path'' = (LE_OK, ''device/x'')"
  "demoExtract 128 docLongName ''unit'' = (LE_OK, [])"
  by (simp_all add: demoExtract_def demoFields_eval)

lemma demoEnv_sel:
  "json_Extract (demoEnv a b) = demoExtract"
  "json_ConvertToBoolean (demoEnv a b) v = (v = ''true'')"
  "io_CreateInput (demoEnv a b) tr p ty u = a"
  "io_CreateOutput (demoEnv a b) tr p ty u = b"
  "psensor_Create (demoEnv a b) tr p ty u h = (if a = LE_OK then Some h else None)"
  "IO_MAX_RESOURCE_PATH_LEN (demoEnv a b) = 79"
  "IO_MAX_UNITS_NAME_LEN (demoEnv a b) = 23"
  by (simp_all add: demoEnv_def)

lemma demoParse_eval:
  "ParseSensorInfo (demoEnv a b) docOnce i0 =
     (LE_OK, i0\<lparr>name := ''sn'', path := ''device/SN'', isReadOnce := True, unit := []\<rparr>)"
  "ParseSensorInfo (demoEnv a b) docPeriodic i0 =
     (LE_OK, i0\<lparr>name := ''temp'', path := ''device/temperature'', isReadOnce := False,
                 unit := ''degC''\<rparr>)"
  "fst (ParseSensorInfo (demoEnv a b) docNoPath i0) = LE_FAULT"
  "ParseSensorInfo (demoEnv a b) docLongName i0 =
     (LE_FAULT, i0\<lparr>name := ''a-name-of-twenty-on''\<rparr>)"
  by (simp_all add: ParseSensorInfo_def demoEnv_sel demoExtract_eval le_utf8_Copy_def
                    MAX_RESOURCE_NAME_LEN_def)

lemma demoInit_alloc:
  "allocated demoInit = 0"
  "RegisteredSensorCount demoInit = 0" "trace demoInit = []" "plugin demoInit = 0"
  "heap demoInit h = demoBlock"
  by (simp_all add: allocated_def demoInit_def COMPONENT_INIT_def le_mem_ForceAlloc_def
                le_mem_InitStaticPool_def SENSOR_HANDLER_POOL_SIZE_def upt_conv_Cons)

lemma demo_dataTypeOf:
  "dataTypeOf SF_CB_NUMERIC = Some IO_DATA_TYPE_NUMERIC"
  "dataTypeOf SF_CB_STRING = Some IO_DATA_TYPE_STRING"
  "dataTypeOf SF_CB_BOOLEAN = Some IO_DATA_TYPE_BOOLEAN"
  "dataTypeOf SF_CB_JSON = Some IO_DATA_TYPE_JSON"
  "dataTypeOf 4 = None"
  by (simp_all add: dataTypeOf_def SF_CB_NUMERIC_def SF_CB_STRING_def SF_CB_BOOLEAN_def
                    SF_CB_JSON_def)

lemma demoRegistered_eval:
  "fst (sensorFw_RegisterCallback (demoEnv LE_OK LE_OK) docPeriodic SF_CB_NUMERIC
     (demoCallbacks (NumericCb (demoNumeric r)) (Some (demoString r))) (Some 7) demoInit) =
   Inr LE_OK"
  "plugin (demoRegistered r) = 2"
  "trace (demoRegistered r) =
     [Psensor_Create ''device/temperature'' IO_DATA_TYPE_NUMERIC ''degC'' 0,
      Hub_PushBoolean ''device/temperature/enable'' True,
      Hub_PushNumeric ''device/temperature/period'' 60,
      Call_numericCb 8 (Some 7)] @
     (if r = LE_OK then [Psensor_PushNumeric (Some 0) 42] else []) @
     [Hub_CreateOutput ''device/temperature/config'' IO_DATA_TYPE_JSON [],
      Call_configCb None 1024 (Some 7)] @
     (if r = LE_OK then [Hub_PushJson ''device/temperature/config'' ''v1''] else []) @
     [Hub_AddJsonPushHandler ''device/temperature/config'' 0]"
  "info (heap (demoRegistered r) 0) =
     \<lparr>sensorId = 0, name = ''temp'', path = ''device/temperature'',
      isReadOnce = False, unit = ''degC'', type = IO_DATA_TYPE_NUMERIC, sensorRef = Some 0\<rparr>"
  "callbacks (heap (demoRegistered r) 0) =
     demoCallbacks (NumericCb (demoNumeric r)) (Some (demoString r))"
  "pluginContextPtr (heap (demoRegistered r) 0) = Some 7"
  "RegisteredSensorCount (demoRegistered r) = 1"
proof -
  let ?cb = "demoCallbacks (NumericCb (demoNumeric r)) (Some (demoString r))"
  let ?i1 = "(info (heap demoInit (allocated demoInit)))
               \<lparr>name := ''temp'', path := ''device/temperature'', isReadOnce := False,
                unit := ''degC''\<rparr>"
  have sel: "selectedSample (sample ?cb) IO_DATA_TYPE_NUMERIC (Some 7) (plugin demoInit) =
               Some (Call_numericCb 8 (Some 7), r, NumericSample 42, 1)"
    by (simp add: demoCallbacks_def demoNumeric_def demoInit_alloc)
  have ro: "\<not> isReadOnce ?i1" by simp
  have cf: "configCb ?cb = Some (demoString r)" by (simp add: demoCallbacks_def)
  have fr: "demoString r None MAX_RES_STRING_LEN (Some 7) 1 = ((r, ''v1''), 2)"
    by (simp add: demoString_def)
  have ps: "psensor_Create (demoEnv LE_OK LE_OK) (trace demoInit) (path ?i1)
              IO_DATA_TYPE_NUMERIC (unit ?i1) (allocated demoInit) = Some 0"
    by (simp add: demoEnv_sel demoInit_alloc)
  note R = register_periodic_config(1)
          [OF demoParse_eval(2) demo_dataTypeOf(1) sel ro ps cf fr refl refl refl]
  have R': "demoRegistered r = snd (Inr LE_OK :: abort + le_result_t, X)" if
    "sensorFw_RegisterCallback (demoEnv LE_OK LE_OK) docPeriodic SF_CB_NUMERIC ?cb (Some 7) demoInit
      = (Inr LE_OK, X)" for X
    using that by (simp add: demoRegistered_def)
  show "fst (sensorFw_RegisterCallback (demoEnv LE_OK LE_OK) docPeriodic SF_CB_NUMERIC
          ?cb (Some 7) demoInit) = Inr LE_OK"
    by (subst R) (simp_all add: demoEnv_sel)
  show "plugin (demoRegistered r) = 2"
    by (subst R' [OF R]) (simp_all add: demoEnv_sel)
  show "trace (demoRegistered r) =
     [Psensor_Create ''device/temperature'' IO_DATA_TYPE_NUMERIC ''degC'' 0,
      Hub_PushBoolean ''device/temperature/enable'' True,
      Hub_PushNumeric ''device/temperature/period'' 60,
      Call_numericCb 8 (Some 7)] @
     (if r = LE_OK then [Psensor_PushNumeric (Some 0) 42] else []) @
     [Hub_CreateOutput ''device/temperature/config'' IO_DATA_TYPE_JSON [],
      Call_configCb None 1024 (Some 7)] @
     (if r = LE_OK then [Hub_PushJson ''device/temperature/config'' ''v1''] else []) @
     [Hub_AddJsonPushHandler ''device/temperature/config'' 0]"
    by (subst R' [OF R])
       (simp_all add: demoEnv_sel demoInit_alloc resourcePathOf_def snprintf_path_def
          MAX_RESOURCE_NAME_LEN_def MAX_RES_STRING_LEN_def DEFAULT_SAMPLING_PERIOD_SEC_def)
  show "info (heap (demoRegistered r) 0) =
     \<lparr>sensorId = 0, name = ''temp'', path = ''device/temperature'',
      isReadOnce = False, unit = ''degC'', type = IO_DATA_TYPE_NUMERIC, sensorRef = Some 0\<rparr>"
    by (subst R' [OF R]) (simp_all add: demoEnv_sel demoInit_alloc filled_def demoBlock_def)
  show "callbacks (heap (demoRegistered r) 0) = ?cb"
    by (subst R' [OF R])
       (simp_all add: demoEnv_sel demoInit_alloc filled_def demoBlock_def demoCallbacks_def)
  show "pluginContextPtr (heap (demoRegistered r) 0) = Some 7"
    by (subst R' [OF R]) (simp_all add: demoEnv_sel demoInit_alloc filled_def)
  show "RegisteredSensorCount (demoRegistered r) = 1"
    by (subst R' [OF R]) (simp_all add: demoEnv_sel demoInit_alloc)
qed

lemma demoOnce_eval:
  "fst (sensorFw_RegisterCallback (demoEnv LE_OK LE_OK) docOnce SF_CB_STRING
     (demoCallbacks (StringCb (demoString r)) None) None demoInit) = Inr LE_OK"
  "plugin (demoOnce r) = 1"
  "trace (demoOnce r) =
     [Hub_CreateInput ''device/SN'' IO_DATA_TYPE_STRING [], Call_stringCb 1024 None] @
     (if r = LE_OK then [Hub_PushString ''device/SN'' ''v1''] else [])"
  "info (heap (demoOnce r) 0) =
     \<lparr>sensorId = 0, name = ''sn'', path = ''device/SN'', isReadOnce = True, unit = [],
      type = IO_DATA_TYPE_STRING, sensorRef = None\<rparr>"
  "callbacks (heap (demoOnce r) 0) = demoCallbacks (StringCb (demoString r)) None"
  "pluginContextPtr (heap (demoOnce r) 0) = None"
  "RegisteredSensorCount (demoOnce r) = 1"
proof -
  let ?cb = "demoCallbacks (StringCb (demoString r)) None"
  let ?i1 = "(info (heap demoInit (allocated demoInit)))
               \<lparr>name := ''sn'', path := ''device/SN'', isReadOnce := True, unit := []\<rparr>"
  have sel: "selectedSample (sample ?cb) IO_DATA_TYPE_STRING None (plugin demoInit) =
               Some (Call_stringCb MAX_RES_STRING_LEN None, r, StringSample ''v1'', 1)"
    by (simp add: demoCallbacks_def demoString_def demoInit_alloc)
  have ro: "isReadOnce ?i1" by simp
  have good: "io_CreateInput (demoEnv LE_OK LE_OK) (trace demoInit) (path ?i1)
                IO_DATA_TYPE_STRING (unit ?i1) \<in> {LE_OK, LE_DUPLICATE}"
    by (simp add: demoEnv_sel)
  note R = register_read_once [OF demoParse_eval(1) demo_dataTypeOf(2) sel ro good]
  have R': "demoOnce r = snd (Inr LE_OK :: abort + le_result_t, X)" if
    "sensorFw_RegisterCallback (demoEnv LE_OK LE_OK) docOnce SF_CB_STRING ?cb None demoInit
      = (Inr LE_OK, X)" for X
    using that by (simp add: demoOnce_def)
  show "fst (sensorFw_RegisterCallback (demoEnv LE_OK LE_OK) docOnce SF_CB_STRING
          ?cb None demoInit) = Inr LE_OK"
    by (subst R) simp
  show "plugin (demoOnce r) = 1"
    by (subst R' [OF R]) simp
  show "trace (demoOnce r) =
     [Hub_CreateInput ''device/SN'' IO_DATA_TYPE_STRING [], Call_stringCb 1024 None] @
     (if r = LE_OK then [Hub_PushString ''device/SN'' ''v1''] else [])"
    by (subst R' [OF R]) (simp add: demoInit_alloc MAX_RES_STRING_LEN_def)
  show "info (heap (demoOnce r) 0) =
     \<lparr>sensorId = 0, name = ''sn'', path = ''device/SN'', isReadOnce = True, unit = [],
      type = IO_DATA_TYPE_STRING, sensorRef = None\<rparr>"
    by (subst R' [OF R]) (simp add: demoInit_alloc filled_def demoBlock_def)
  show "callbacks (heap (demoOnce r) 0) = ?cb"
    by (subst R' [OF R]) (simp add: demoInit_alloc filled_def demoBlock_def demoCallbacks_def)
  show "pluginContextPtr (heap (demoOnce r) 0) = None"
    by (subst R' [OF R]) (simp add: demoInit_alloc filled_def)
  show "RegisteredSensorCount (demoOnce r) = 1"
    by (subst R' [OF R]) (simp add: demoInit_alloc)
qed

section \<open>Statements about the framework\<close>

subsection \<open>Dispatch on a data type outside the four payload kinds\<close>

text \<open>
  C10. For every sensor entry whose stored data type is not one of the four payload
  kinds Boolean, Numeric, String and JSON, \<^verbatim>\<open>PushData\<close> invokes no sample callback
  and pushes nothing to the Hub (the state, with its trace and plugin world, is
  returned as it was) and returns \<^verbatim>\<open>LE_OK\<close> rather than an error.
\<close>

theorem PushData_unlisted_type:
  assumes "type (info (heap s h)) \<notin>
             {IO_DATA_TYPE_BOOLEAN, IO_DATA_TYPE_NUMERIC, IO_DATA_TYPE_STRING, IO_DATA_TYPE_JSON}"
  shows "PushData h s = (Inr LE_OK, s)"
  using assms by (cases "type (info (heap s h))") (simp_all add: PushData_def)

theorem PushData_unlisted_type_witness:
  "type (info (heap demoInit 5)) \<notin>
     {IO_DATA_TYPE_BOOLEAN, IO_DATA_TYPE_NUMERIC, IO_DATA_TYPE_STRING, IO_DATA_TYPE_JSON} \<and>
   PushData 5 demoInit = (Inr LE_OK, demoInit)"
  using PushData_unlisted_type [of demoInit 5] by (simp add: demoInit_alloc demoBlock_def)

subsection \<open>A failing callback\<close>

text \<open>
  C2. For every entry, when the selected sample callback returns a failure result,
  \<^verbatim>\<open>PushData\<close> returns \<^verbatim>\<open>LE_FAULT\<close> and the only thing it adds to the trace is
  the invocation of that callback: nothing is pushed, so the calls the Hub has seen
  are the same as before. Likewise, when the config callback returns a failure result,
  \<^verbatim>\<open>PushConfig\<close> returns \<^verbatim>\<open>LE_FAULT\<close> and adds only the invocation of the
  config callback.
\<close>

theorem failed_callback_pushes_nothing:
  "(selectedSample (sample (callbacks (heap s h))) (type (info (heap s h)))
      (pluginContextPtr (heap s h)) (plugin s) = Some (e, r, v, w) \<and> r \<noteq> LE_OK \<longrightarrow>
      PushData h s = (Inr LE_FAULT, s\<lparr>plugin := w, trace := trace s @ [e]\<rparr>) \<and>
      isCallback e \<and>
      hubCalls (trace (snd (PushData h s))) = hubCalls (trace s)) \<and>
   (configCb (callbacks (heap s h)) = Some f \<and>
    f None MAX_RES_STRING_LEN (pluginContextPtr (heap s h)) (plugin s) = ((cr, cv), w2) \<and>
    cr \<noteq> LE_OK \<longrightarrow>
      PushConfig env h s =
        (Inr LE_FAULT,
         s\<lparr>plugin := w2,
           trace := trace s @
             [Call_configCb None MAX_RES_STRING_LEN (pluginContextPtr (heap s h))]\<rparr>) \<and>
      hubCalls (trace (snd (PushConfig env h s))) = hubCalls (trace s))"
proof (intro conjI impI)
  assume a: "selectedSample (sample (callbacks (heap s h))) (type (info (heap s h)))
      (pluginContextPtr (heap s h)) (plugin s) = Some (e, r, v, w) \<and> r \<noteq> LE_OK"
  then have sel: "selectedSample (sample (callbacks (heap s h))) (type (info (heap s h)))
      (pluginContextPtr (heap s h)) (plugin s) = Some (e, r, v, w)" and r: "r \<noteq> LE_OK"
    by simp_all
  show p: "PushData h s = (Inr LE_FAULT, s\<lparr>plugin := w, trace := trace s @ [e]\<rparr>)"
    using PushData_selected [OF sel] r by (simp add: emit_def)
  show c: "isCallback e" using selectedSample_event [OF sel] by simp
  show "hubCalls (trace (snd (PushData h s))) = hubCalls (trace s)"
    using c by (simp add: p hubCalls_def)
next
  assume a: "configCb (callbacks (heap s h)) = Some f \<and>
    f None MAX_RES_STRING_LEN (pluginContextPtr (heap s h)) (plugin s) = ((cr, cv), w2) \<and>
    cr \<noteq> LE_OK"
  then have cf: "configCb (callbacks (heap s h)) = Some f"
    and fr: "f None MAX_RES_STRING_LEN (pluginContextPtr (heap s h)) (plugin s) = ((cr, cv), w2)"
    and cr: "cr \<noteq> LE_OK" by simp_all
  show p: "PushConfig env h s =
        (Inr LE_FAULT,
         s\<lparr>plugin := w2,
           trace := trace s @
             [Call_configCb None MAX_RES_STRING_LEN (pluginContextPtr (heap s h))]\<rparr>)"
    using PushConfig_result [OF cf fr, of env] cr by simp
  show "hubCalls (trace (snd (PushConfig env h s))) = hubCalls (trace s)"
    by (simp add: p hubCalls_def)
qed

theorem failed_callback_pushes_nothing_witness:
  "selectedSample (sample (callbacks (heap (demoRegistered LE_FAULT) 0)))
      (type (info (heap (demoRegistered LE_FAULT) 0)))
      (pluginContextPtr (heap (demoRegistered LE_FAULT) 0)) (plugin (demoRegistered LE_FAULT)) =
      Some (Call_numericCb 8 (Some 7), LE_FAULT, NumericSample 42, 3) \<and>
   PushData 0 (demoRegistered LE_FAULT) =
     (Inr LE_FAULT,
      (demoRegistered LE_FAULT)
        \<lparr>plugin := 3,
         trace := trace (demoRegistered LE_FAULT) @ [Call_numericCb 8 (Some 7)]\<rparr>) \<and>
   hubCalls (trace (snd (PushData 0 (demoRegistered LE_FAULT)))) =
     hubCalls (trace (demoRegistered LE_FAULT)) \<and>
   configCb (callbacks (heap (demoRegistered LE_FAULT) 0)) = Some (demoString LE_FAULT) \<and>
   demoString LE_FAULT None MAX_RES_STRING_LEN (Some 7) 2 = ((LE_FAULT, ''v1''), 3) \<and>
   PushConfig (demoEnv LE_OK LE_OK) 0 (demoRegistered LE_FAULT) =
     (Inr LE_FAULT,
      (demoRegistered LE_FAULT)
        \<lparr>plugin := 3,
         trace := trace (demoRegistered LE_FAULT) @
           [Call_configCb None MAX_RES_STRING_LEN (Some 7)]\<rparr>) \<and>
   hubCalls (trace (snd (PushConfig (demoEnv LE_OK LE_OK) 0 (demoRegistered LE_FAULT)))) =
     hubCalls (trace (demoRegistered LE_FAULT))"
  using failed_callback_pushes_nothing
          [of "demoRegistered LE_FAULT" 0 "Call_numericCb 8 (Some 7)" LE_FAULT
              "NumericSample 42" 3 "demoString LE_FAULT" LE_FAULT "''v1''" 3
              "demoEnv LE_OK LE_OK"]
  by (simp add: demoRegistered_eval demoCallbacks_def demoNumeric_def demoString_def
                hubCalls_def MAX_RES_STRING_LEN_def)

subsection \<open>The descriptor parser\<close>

lemma demoInit_pool:
  "inUse (SensorHandlerPool demoInit) = []"
  "inUse (snd (le_mem_ForceAlloc (SensorHandlerPool demoInit))) = [0]"
proof -
  have upt: "[0..<100] = 0 # [Suc 0..<100]" by (simp add: upt_conv_Cons)
  have pool: "SensorHandlerPool demoInit =
                \<lparr>numBlocks = 100, freeList = [0..<100], numOverflows = 0\<rparr>"
    by (simp add: demoInit_def COMPONENT_INIT_def le_mem_InitStaticPool_def
                  SENSOR_HANDLER_POOL_SIZE_def)
  show "inUse (SensorHandlerPool demoInit) = []"
    unfolding pool by (simp add: inUse_def)
  have "inUse (snd (le_mem_ForceAlloc (SensorHandlerPool demoInit))) =
          filter (\<lambda>b. b \<notin> set [Suc 0..<100]) (0 # [Suc 0..<100])"
    unfolding pool by (simp add: inUse_def le_mem_ForceAlloc_def upt)
  also have "\<dots> = [0]" by simp
  finally show "inUse (snd (le_mem_ForceAlloc (SensorHandlerPool demoInit))) = [0]" .
qed

text \<open>
  C6. \<^verbatim>\<open>ParseSensorInfo\<close> succeeds if and only if the members name, path and unit
  are all extracted from the descriptor and each fits its destination buffer. If name
  or path cannot be extracted, \<^verbatim>\<open>sensorFw_RegisterCallback\<close> returns
  \<^verbatim>\<open>LE_FAULT\<close> and the registered count is unchanged. When readOnce cannot be
  extracted, the parsed record has \<open>isReadOnce = False\<close>.
\<close>

theorem ParseSensorInfo_required_members:
  "(fst (ParseSensorInfo env doc i0) = LE_OK \<longleftrightarrow>
      (fst (json_Extract env 128 doc ''name'') = LE_OK \<and>
       length (snd (json_Extract env 128 doc ''name'')) < MAX_RESOURCE_NAME_LEN) \<and>
      (fst (json_Extract env 128 doc ''path'') = LE_OK \<and>
       length (snd (json_Extract env 128 doc ''path'')) < IO_MAX_RESOURCE_PATH_LEN env) \<and>
      (fst (json_Extract env 128 doc ''unit'') = LE_OK \<and>
       length (snd (json_Extract env 128 doc ''unit'')) < IO_MAX_UNITS_NAME_LEN env)) \<and>
   (fst (json_Extract env 128 doc ''name'') \<noteq> LE_OK \<or>
    fst (json_Extract env 128 doc ''path'') \<noteq> LE_OK \<longrightarrow>
      fst (sensorFw_RegisterCallback env doc t cb ctx s) = Inr LE_FAULT \<and>
      RegisteredSensorCount (snd (sensorFw_RegisterCallback env doc t cb ctx s)) =
        RegisteredSensorCount s) \<and>
   (fst (ParseSensorInfo env doc i0) = LE_OK \<and>
    fst (json_Extract env 128 doc ''readOnce'') \<noteq> LE_OK \<longrightarrow>
      isReadOnce (snd (ParseSensorInfo env doc i0)) = False)"
proof (intro conjI impI)
  show "fst (ParseSensorInfo env doc i0) = LE_OK \<longleftrightarrow>
      (fst (json_Extract env 128 doc ''name'') = LE_OK \<and>
       length (snd (json_Extract env 128 doc ''name'')) < MAX_RESOURCE_NAME_LEN) \<and>
      (fst (json_Extract env 128 doc ''path'') = LE_OK \<and>
       length (snd (json_Extract env 128 doc ''path'')) < IO_MAX_RESOURCE_PATH_LEN env) \<and>
      (fst (json_Extract env 128 doc ''unit'') = LE_OK \<and>
       length (snd (json_Extract env 128 doc ''unit'')) < IO_MAX_UNITS_NAME_LEN env)"
    by (rule ParseSensorInfo_ok_iff)
next
  assume missing: "fst (json_Extract env 128 doc ''name'') \<noteq> LE_OK \<or>
                   fst (json_Extract env 128 doc ''path'') \<noteq> LE_OK"
  then have "fst (ParseSensorInfo env doc (info (heap s (allocated s)))) \<noteq> LE_OK"
    using ParseSensorInfo_ok_iff [of env doc "info (heap s (allocated s))"] by blast
  from register_parse_failure [OF this, of t cb ctx]
  show "fst (sensorFw_RegisterCallback env doc t cb ctx s) = Inr LE_FAULT"
    and "RegisteredSensorCount (snd (sensorFw_RegisterCallback env doc t cb ctx s)) =
           RegisteredSensorCount s"
    by simp_all
next
  assume a: "fst (ParseSensorInfo env doc i0) = LE_OK \<and>
             fst (json_Extract env 128 doc ''readOnce'') \<noteq> LE_OK"
  obtain i where p: "ParseSensorInfo env doc i0 = (LE_OK, i)"
    using a by (cases "ParseSensorInfo env doc i0") simp
  show "isReadOnce (snd (ParseSensorInfo env doc i0)) = False"
    using ParseSensorInfo_ok_fields [OF p] a by (simp add: p)
qed

theorem ParseSensorInfo_required_members_witness:
  "fst (ParseSensorInfo (demoEnv LE_OK LE_OK) docPeriodic (info demoBlock)) = LE_OK \<and>
   fst (json_Extract (demoEnv LE_OK LE_OK) 128 docPeriodic ''readOnce'') \<noteq> LE_OK \<and>
   isReadOnce (snd (ParseSensorInfo (demoEnv LE_OK LE_OK) docPeriodic (info demoBlock))) = False \<and>
   fst (json_Extract (demoEnv LE_OK LE_OK) 128 docNoPath ''path'') \<noteq> LE_OK \<and>
   fst (ParseSensorInfo (demoEnv LE_OK LE_OK) docNoPath (info demoBlock)) \<noteq> LE_OK \<and>
   fst (sensorFw_RegisterCallback (demoEnv LE_OK LE_OK) docNoPath SF_CB_NUMERIC
          (demoCallbacks (NumericCb (demoNumeric LE_OK)) None) None demoInit) = Inr LE_FAULT \<and>
   RegisteredSensorCount
     (snd (sensorFw_RegisterCallback (demoEnv LE_OK LE_OK) docNoPath SF_CB_NUMERIC
             (demoCallbacks (NumericCb (demoNumeric LE_OK)) None) None demoInit)) =
     RegisteredSensorCount demoInit"
  using ParseSensorInfo_required_members
          [where env = "demoEnv LE_OK LE_OK" and doc = docPeriodic and ?i0.0 = "info demoBlock"
             and t = SF_CB_NUMERIC and cb = "demoCallbacks (NumericCb (demoNumeric LE_OK)) None"
             and ctx = None and s = demoInit]
        ParseSensorInfo_required_members
          [where env = "demoEnv LE_OK LE_OK" and doc = docNoPath and ?i0.0 = "info demoBlock"
             and t = SF_CB_NUMERIC and cb = "demoCallbacks (NumericCb (demoNumeric LE_OK)) None"
             and ctx = None and s = demoInit]
  by (simp add: demoEnv_sel demoExtract_eval demoParse_eval)





subsection \<open>A registration that fails\<close>

text \<open>
  C4. A registration that fails is to leave no entry behind: the count unchanged, no
  Hub resource created, the block back in the pool. The code does so when the
  descriptor does not parse, but not when the callback type is none of the four
  enumerators: the \<^verbatim>\<open>default\<close> branch returns \<^verbatim>\<open>LE_FAULT\<close> without
  \<^verbatim>\<open>le_mem_Release\<close>. Registering the periodic descriptor with the callback type 4 in
  the initial state returns \<^verbatim>\<open>LE_FAULT\<close> with the count still 0 and no Hub call made,
  but block 0 stays in use and holds the parsed name; registering the descriptor without
  a path in the same state leaves no block in use.
\<close>

theorem register_invalid_type_keeps_block:
  "fst (sensorFw_RegisterCallback (demoEnv LE_OK LE_OK) docPeriodic 4
          (demoCallbacks (NumericCb (demoNumeric LE_OK)) None) (Some 7) demoInit) = Inr LE_FAULT \<and>
   RegisteredSensorCount
     (snd (sensorFw_RegisterCallback (demoEnv LE_OK LE_OK) docPeriodic 4
            (demoCallbacks (NumericCb (demoNumeric LE_OK)) None) (Some 7) demoInit)) = 0 \<and>
   trace
     (snd (sensorFw_RegisterCallback (demoEnv LE_OK LE_OK) docPeriodic 4
            (demoCallbacks (NumericCb (demoNumeric LE_OK)) None) (Some 7) demoInit)) = [] \<and>
   inUse (SensorHandlerPool demoInit) = [] \<and>
   inUse (SensorHandlerPool
     (snd (sensorFw_RegisterCallback (demoEnv LE_OK LE_OK) docPeriodic 4
            (demoCallbacks (NumericCb (demoNumeric LE_OK)) None) (Some 7) demoInit))) = [0] \<and>
   name (info (heap
     (snd (sensorFw_RegisterCallback (demoEnv LE_OK LE_OK) docPeriodic 4
            (demoCallbacks (NumericCb (demoNumeric LE_OK)) None) (Some 7) demoInit)) 0)) =
     ''temp'' \<and>
   inUse (SensorHandlerPool
     (snd (sensorFw_RegisterCallback (demoEnv LE_OK LE_OK) docNoPath 4
            (demoCallbacks (NumericCb (demoNumeric LE_OK)) None) (Some 7) demoInit))) = []"
proof -
  let ?cb = "demoCallbacks (NumericCb (demoNumeric LE_OK)) None"
  have p: "fst (ParseSensorInfo (demoEnv LE_OK LE_OK) docPeriodic
                  (info (heap demoInit (allocated demoInit)))) = LE_OK"
    by (simp add: demoParse_eval)
  note B = register_bad_type [OF p demo_dataTypeOf(5), of ?cb "Some 7"]
  have q: "fst (ParseSensorInfo (demoEnv LE_OK LE_OK) docNoPath
                  (info (heap demoInit (allocated demoInit)))) \<noteq> LE_OK"
    by (simp add: demoParse_eval)
  note F = register_parse_failure [OF q, of 4 ?cb "Some 7"]
  show ?thesis
    using B F by (simp add: demoInit_alloc demoInit_pool demoParse_eval)
qed

subsection \<open>A registration that returned\<close>

lemma sampleMatches_selected:
  "sampleMatches u dt \<Longrightarrow> \<exists>e r v w'. selectedSample u dt ctx w = Some (e, r, v, w')"
  by (cases dt) (auto split: option.splits prod.splits)

lemma sample_call_classes:
  "isSampleCall e \<Longrightarrow> \<not> isSamplePush ro p e \<and> \<not> isConfigSetup e"
  by (cases e) auto

lemma sample_push_classes:
  "\<not> isConfigSetup (samplePush i v)"
  by (cases v) auto

text \<open>
  A registration whose descriptor parsed, whose callback type is one of the four and
  whose selected callback exists either ended the process or took one of three paths,
  each with a state that can be written out.
\<close>

lemma register_returned_cases [consumes 4, case_names readOnce plain config]:
  assumes parse: "ParseSensorInfo env doc (info (heap s (allocated s))) = (LE_OK, i1)"
      and dt: "dataTypeOf t = Some dt"
      and sel: "selectedSample (sample cb) dt ctx (plugin s) = Some (e, r, v, w)"
      and ret: "sensorFw_RegisterCallback env doc t cb ctx s = (Inr res, s')"
  obtains
    (readOnce) i where
      "isReadOnce i1"
      "i = i1\<lparr>sensorId := RegisteredSensorCount s, type := dt, sensorRef := None\<rparr>"
      "res = LE_OK"
      "s' = s\<lparr>plugin := w,
              trace := trace s @ [Hub_CreateInput (path i1) dt (unit i1), e] @
                (if r = LE_OK then [samplePush i v] else []),
              SensorHandlerPool := snd (le_mem_ForceAlloc (SensorHandlerPool s)),
              heap := (heap s)(allocated s := (filled s i1 dt cb ctx)\<lparr>info := i\<rparr>),
              RegisteredSensorCount := RegisteredSensorCount s + 1\<rparr>"
  | (plain) i ref where
      "\<not> isReadOnce i1" "configCb cb = None"
      "psensor_Create env (trace s) (path i1) dt (unit i1) (allocated s) = Some ref"
      "i = i1\<lparr>sensorId := RegisteredSensorCount s, type := dt, sensorRef := Some ref\<rparr>"
      "res = LE_OK"
      "s' = s\<lparr>plugin := w,
              trace := trace s @
                [Psensor_Create (path i1) dt (unit i1) (allocated s),
                 Hub_PushBoolean (resourcePathOf env (path i1) ''enable'') True,
                 Hub_PushNumeric (resourcePathOf env (path i1) ''period'')
                   DEFAULT_SAMPLING_PERIOD_SEC,
                 e] @ (if r = LE_OK then [samplePush i v] else []),
              SensorHandlerPool := snd (le_mem_ForceAlloc (SensorHandlerPool s)),
              heap := (heap s)(allocated s := (filled s i1 dt cb ctx)\<lparr>info := i\<rparr>),
              RegisteredSensorCount := RegisteredSensorCount s + 1\<rparr>"
  | (config) i ref f cr cv w2 where
      "\<not> isReadOnce i1" "configCb cb = Some f"
      "psensor_Create env (trace s) (path i1) dt (unit i1) (allocated s) = Some ref"
      "i = i1\<lparr>sensorId := RegisteredSensorCount s, type := dt, sensorRef := Some ref\<rparr>"
      "f None MAX_RES_STRING_LEN ctx w = ((cr, cv), w2)"
      "res = LE_OK"
      "s' = s\<lparr>plugin := w2,
              trace := trace s @
                [Psensor_Create (path i1) dt (unit i1) (allocated s),
                 Hub_PushBoolean (resourcePathOf env (path i1) ''enable'') True,
                 Hub_PushNumeric (resourcePathOf env (path i1) ''period'')
                   DEFAULT_SAMPLING_PERIOD_SEC,
                 e] @ (if r = LE_OK then [samplePush i v] else []) @
                [Hub_CreateOutput (resourcePathOf env (path i1) ''config'') IO_DATA_TYPE_JSON [],
                 Call_configCb None MAX_RES_STRING_LEN ctx] @
                (if cr = LE_OK
                 then [Hub_PushJson (resourcePathOf env (path i1) ''config'') cv] else []) @
                [Hub_AddJsonPushHandler (resourcePathOf env (path i1) ''config'') (allocated s)],
              SensorHandlerPool := snd (le_mem_ForceAlloc (SensorHandlerPool s)),
              heap := (heap s)(allocated s := (filled s i1 dt cb ctx)\<lparr>info := i\<rparr>),
              RegisteredSensorCount := RegisteredSensorCount s + 1\<rparr>"
proof (cases "isReadOnce i1")
  case True
  show thesis
  proof (cases "io_CreateInput env (trace s) (path i1) dt (unit i1) \<in> {LE_OK, LE_DUPLICATE}")
    case good: True
    from register_read_once [OF parse dt sel True good] ret
    show thesis by (intro readOnce [OF True refl]) simp_all
  next
    case False
    from register_read_once_refused [OF parse dt True False, of cb ctx] ret
    show thesis by simp
  qed
next
  case False
  show thesis
  proof (cases "psensor_Create env (trace s) (path i1) dt (unit i1) (allocated s)")
    case None
    from register_periodic_refused [OF parse dt False None, of cb ctx] ret
    show thesis by simp
  next
    case (Some ref)
    show thesis
    proof (cases "configCb cb")
      case None
      from register_periodic_plain [OF parse dt sel False Some None] ret
      show thesis by (intro plain [OF False None Some refl]) simp_all
    next
      case cf: (Some f)
      obtain cr cv w2 where fr: "f None MAX_RES_STRING_LEN ctx w = ((cr, cv), w2)"
        by (metis prod.exhaust)
      note C = register_periodic_config [OF parse dt sel False Some cf fr refl refl refl]
      show thesis
      proof (cases "io_CreateOutput env
          (trace s @
            [Psensor_Create (path i1) dt (unit i1) (allocated s),
             Hub_PushBoolean (resourcePathOf env (path i1) ''enable'') True,
             Hub_PushNumeric (resourcePathOf env (path i1) ''period'') DEFAULT_SAMPLING_PERIOD_SEC,
             e] @
            (if r = LE_OK
             then [samplePush
                     (i1\<lparr>sensorId := RegisteredSensorCount s, type := dt,
                          sensorRef := Some ref\<rparr>) v]
             else []))
          (resourcePathOf env (path i1) ''config'') IO_DATA_TYPE_JSON []
          \<in> {LE_OK, LE_DUPLICATE}")
        case True
        from C(1) [OF True] ret
        show thesis by (intro config [OF False cf Some refl fr]) simp_all
      next
        case False
        from C(2) [OF False] ret show thesis by simp
      qed
    qed
  qed
qed

lemma register_returned_selected:
  assumes parse: "ParseSensorInfo env doc (info (heap s (allocated s))) = (LE_OK, i1)"
      and dt: "dataTypeOf t = Some dt"
      and ret: "sensorFw_RegisterCallback env doc t cb ctx s = (Inr res, s')"
  shows "\<exists>e r v w. selectedSample (sample cb) dt ctx (plugin s) = Some (e, r, v, w)"
proof (cases "selectedSample (sample cb) dt ctx (plugin s)")
  case None
  from register_unselected [OF parse dt None] ret show ?thesis by simp
next
  case (Some x)
  then show ?thesis by (cases x) auto
qed

lemma ConfigUpdateHandler_result:
  assumes "configCb (callbacks (heap s h)) = Some f"
  shows "ConfigUpdateHandler ts j (Some h) s =
           (Inr (),
            s\<lparr>plugin := snd (f (Some j) (length j) (pluginContextPtr (heap s h)) (plugin s)),
              trace := trace s @
                [Call_configCb (Some j) (length j) (pluginContextPtr (heap s h))]\<rparr>)"
  using assms
  by (simp add: ConfigUpdateHandler_def Let_def emit_def split: prod.splits)

subsection \<open>The sample taken at registration\<close>

text \<open>
  C1, as the code has it. For every registration that parsed its descriptor, was given
  one of the four callback types and returned: it returned \<^verbatim>\<open>LE_OK\<close>, the
  registered count grew by exactly one, and among the events it added there is exactly
  one invocation of a sample callback, that of the payload kind, called on the plugin
  world as it was; the callback's value is pushed, once and right after, only when the
  callback returned \<^verbatim>\<open>LE_OK\<close>. When the callback failed, nothing of the entry
  is pushed and the registration returns \<^verbatim>\<open>LE_OK\<close> all the same.
\<close>

theorem register_samples_once:
  assumes "ParseSensorInfo env doc (info (heap s (allocated s))) = (LE_OK, i1)"
      and "dataTypeOf t = Some dt"
      and "selectedSample (sample cb) dt ctx (plugin s) = Some (e, r, v, w)"
      and "sensorFw_RegisterCallback env doc t cb ctx s = (Inr res, s')"
  shows "res = LE_OK \<and>
         RegisteredSensorCount s' = RegisteredSensorCount s + 1 \<and>
         filter (\<lambda>x. isSampleCall x \<or> isSamplePush (isReadOnce i1) (path i1) x)
           (newEvents s s') =
           e # (if r = LE_OK then [samplePush (info (heap s' (allocated s))) v] else [])"
  using assms
proof (cases rule: register_returned_cases)
  case (readOnce i)
  have e: "isSampleCall e" "\<not> isSamplePush True (path i1) e"
    using selectedSample_event [OF assms(3)] sample_call_classes by blast+
  have p: "isSamplePush True (path i1) (samplePush i v)"
    using samplePush_is_push [of i v] readOnce(1,2) by simp
  show ?thesis
    using readOnce e p by (simp add: newEvents_def)
next
  case (plain i ref)
  have e: "isSampleCall e" "\<not> isSamplePush False (path i1) e"
    using selectedSample_event [OF assms(3)] sample_call_classes by blast+
  have p: "isSamplePush False (path i1) (samplePush i v)"
    using samplePush_is_push [of i v] plain(1,4) by simp
  show ?thesis
    using plain e p by (simp add: newEvents_def)
next
  case (config i ref f cr cv w2)
  have e: "isSampleCall e" "\<not> isSamplePush False (path i1) e"
    using selectedSample_event [OF assms(3)] sample_call_classes by blast+
  have p: "isSamplePush False (path i1) (samplePush i v)"
    using samplePush_is_push [of i v] config(1,4) by simp
  show ?thesis
    using config e p by (simp add: newEvents_def)
qed

theorem register_samples_once_witness:
  "ParseSensorInfo (demoEnv LE_OK LE_OK) docOnce (info (heap demoInit (allocated demoInit))) =
     (LE_OK, (info demoBlock)\<lparr>name := ''sn'', path := ''device/SN'', isReadOnce := True,
                               unit := []\<rparr>) \<and>
   dataTypeOf SF_CB_STRING = Some IO_DATA_TYPE_STRING \<and>
   selectedSample (sample (demoCallbacks (StringCb (demoString LE_OK)) None))
     IO_DATA_TYPE_STRING None (plugin demoInit) =
     Some (Call_stringCb 1024 None, LE_OK, StringSample ''v1'', 1) \<and>
   sensorFw_RegisterCallback (demoEnv LE_OK LE_OK) docOnce SF_CB_STRING
     (demoCallbacks (StringCb (demoString LE_OK)) None) None demoInit =
     (Inr LE_OK, demoOnce LE_OK) \<and>
   RegisteredSensorCount (demoOnce LE_OK) = RegisteredSensorCount demoInit + 1 \<and>
   filter (\<lambda>x. isSampleCall x \<or> isSamplePush True ''device/SN'' x)
     (newEvents demoInit (demoOnce LE_OK)) =
     [Call_stringCb 1024 None, Hub_PushString ''device/SN'' ''v1'']"
proof -
  let ?cb = "demoCallbacks (StringCb (demoString LE_OK)) None"
  let ?i1 = "(info demoBlock)\<lparr>name := ''sn'', path := ''device/SN'', isReadOnce := True,
                              unit := []\<rparr>"
  have parse: "ParseSensorInfo (demoEnv LE_OK LE_OK) docOnce
                 (info (heap demoInit (allocated demoInit))) = (LE_OK, ?i1)"
    by (simp add: demoParse_eval demoInit_alloc)
  have sel: "selectedSample (sample ?cb) IO_DATA_TYPE_STRING None (plugin demoInit) =
               Some (Call_stringCb 1024 None, LE_OK, StringSample ''v1'', 1)"
    by (simp add: demoCallbacks_def demoString_def demoInit_alloc MAX_RES_STRING_LEN_def)
  have ret: "sensorFw_RegisterCallback (demoEnv LE_OK LE_OK) docOnce SF_CB_STRING ?cb None
               demoInit = (Inr LE_OK, demoOnce LE_OK)"
    using demoOnce_eval(1) [of LE_OK] by (simp add: demoOnce_def prod_eq_iff)
  show ?thesis
    using register_samples_once [OF parse demo_dataTypeOf(2) sel ret] parse sel ret
    by (simp add: demo_dataTypeOf demoOnce_eval demoInit_alloc)
qed

text \<open>
  C1 as stated fails when the sample callback fails: the read-once string sensor whose
  callback returns \<^verbatim>\<open>LE_FAULT\<close> is registered with \<^verbatim>\<open>LE_OK\<close> and counted, the
  callback has been invoked once, and the only call the Hub has seen is the creation
  of the input. No value has been pushed.
\<close>

theorem register_failed_sample_counterexample:
  "fst (sensorFw_RegisterCallback (demoEnv LE_OK LE_OK) docOnce SF_CB_STRING
          (demoCallbacks (StringCb (demoString LE_FAULT)) None) None demoInit) = Inr LE_OK \<and>
   RegisteredSensorCount (demoOnce LE_FAULT) = 1 \<and>
   trace (demoOnce LE_FAULT) =
     [Hub_CreateInput ''device/SN'' IO_DATA_TYPE_STRING [], Call_stringCb 1024 None] \<and>
   hubCalls (trace (demoOnce LE_FAULT)) = [Hub_CreateInput ''device/SN'' IO_DATA_TYPE_STRING []]"
  by (simp add: demoOnce_eval hubCalls_def)

subsection \<open>The config resource and its push handler\<close>

text \<open>
  C3. For every registration that returned, of a descriptor that is not read-once and
  with a config callback that is not \<^verbatim>\<open>NULL\<close>: the registration created one Hub
  output, at the entry's path followed by \<^verbatim>\<open>/config\<close>, of type JSON and with empty
  units, and subscribed one push handler, at the same path and with the new handler as
  context. From then on, in every state where that handler is as the registration left
  it, \<^verbatim>\<open>ConfigUpdateHandler\<close> called with a JSON text and this context invokes the
  plugin's config callback exactly once, with that text unchanged, its length, and the
  plugin context handed in at registration.
\<close>

theorem config_handler_forwards_json:
  assumes "ParseSensorInfo env doc (info (heap s (allocated s))) = (LE_OK, i1)"
      and "dataTypeOf t = Some dt"
      and "sensorFw_RegisterCallback env doc t cb ctx s = (Inr res, s')"
      and "\<not> isReadOnce i1"
      and "configCb cb = Some f"
  shows "filter isConfigSetup (newEvents s s') =
           [Hub_CreateOutput (path i1 @ ''/config'') IO_DATA_TYPE_JSON [],
            Hub_AddJsonPushHandler (path i1 @ ''/config'') (allocated s)] \<and>
         (\<forall>s2 ts json. heap s2 (allocated s) = heap s' (allocated s) \<longrightarrow>
            ConfigUpdateHandler ts json (Some (allocated s)) s2 =
              (Inr (),
               s2\<lparr>plugin := snd (f (Some json) (length json) ctx (plugin s2)),
                  trace := trace s2 @ [Call_configCb (Some json) (length json) ctx]\<rparr>))"
proof -
  obtain e r v w where sel: "selectedSample (sample cb) dt ctx (plugin s) = Some (e, r, v, w)"
    using register_returned_selected [OF assms(1,2,3)] by blast
  have cfg: "resourcePathOf env (path i1) ''config'' = path i1 @ ''/config''"
    using resourcePathOf_fits [OF ParseSensorInfo_path_fits [OF assms(1)], of "''config''"]
    by (simp add: MAX_RESOURCE_NAME_LEN_def)
  have e: "\<not> isConfigSetup e"
    using selectedSample_event [OF sel] sample_call_classes by blast
  from assms(1,2) sel assms(3)
  show ?thesis
  proof (cases rule: register_returned_cases)
    case (readOnce i)
    with assms(4) show ?thesis by simp
  next
    case (plain i ref)
    with assms(5) show ?thesis by simp
  next
    case (config i ref g cr cv w2)
    have g: "g = f" using config(2) assms(5) by simp
    have made: "filter isConfigSetup (newEvents s s') =
           [Hub_CreateOutput (path i1 @ ''/config'') IO_DATA_TYPE_JSON [],
            Hub_AddJsonPushHandler (path i1 @ ''/config'') (allocated s)]"
      using e sample_push_classes [of i v] by (simp add: config(7) newEvents_def cfg)
    have h: "configCb (callbacks (heap s' (allocated s))) = Some f"
            "pluginContextPtr (heap s' (allocated s)) = ctx"
      using assms(5) by (simp_all add: config(7) filled_def)
    have fwd: "ConfigUpdateHandler ts json (Some (allocated s)) s2 =
              (Inr (),
               s2\<lparr>plugin := snd (f (Some json) (length json) ctx (plugin s2)),
                  trace := trace s2 @ [Call_configCb (Some json) (length json) ctx]\<rparr>)"
      if "heap s2 (allocated s) = heap s' (allocated s)" for s2 ts json
    proof -
      have "configCb (callbacks (heap s2 (allocated s))) = Some f"
           "pluginContextPtr (heap s2 (allocated s)) = ctx"
        using h that by simp_all
      from ConfigUpdateHandler_result [OF this(1), of ts json] this(2)
      show ?thesis by simp
    qed
    show ?thesis using made fwd by blast
  qed
qed

theorem config_handler_forwards_json_witness:
  "ParseSensorInfo (demoEnv LE_OK LE_OK) docPeriodic
     (info (heap demoInit (allocated demoInit))) =
     (LE_OK, (info demoBlock)\<lparr>name := ''temp'', path := ''device/temperature'',
                               isReadOnce := False, unit := ''degC''\<rparr>) \<and>
   dataTypeOf SF_CB_NUMERIC = Some IO_DATA_TYPE_NUMERIC \<and>
   sensorFw_RegisterCallback (demoEnv LE_OK LE_OK) docPeriodic SF_CB_NUMERIC
     (demoCallbacks (NumericCb (demoNumeric LE_OK)) (Some (demoString LE_OK))) (Some 7)
     demoInit = (Inr LE_OK, demoRegistered LE_OK) \<and>
   filter isConfigSetup (newEvents demoInit (demoRegistered LE_OK)) =
     [Hub_CreateOutput ''device/temperature/config'' IO_DATA_TYPE_JSON [],
      Hub_AddJsonPushHandler ''device/temperature/config'' 0] \<and>
   ConfigUpdateHandler 0 docEdit (Some 0) (demoRegistered LE_OK) =
     (Inr (),
      (demoRegistered LE_OK)
        \<lparr>plugin := 3,
         trace := trace (demoRegistered LE_OK) @ [Call_configCb (Some docEdit) 8 (Some 7)]\<rparr>)"
proof -
  let ?cb = "demoCallbacks (NumericCb (demoNumeric LE_OK)) (Some (demoString LE_OK))"
  let ?i1 = "(info demoBlock)\<lparr>name := ''temp'', path := ''device/temperature'',
                              isReadOnce := False, unit := ''degC''\<rparr>"
  have parse: "ParseSensorInfo (demoEnv LE_OK LE_OK) docPeriodic
                 (info (heap demoInit (allocated demoInit))) = (LE_OK, ?i1)"
    by (simp add: demoParse_eval demoInit_alloc)
  have ret: "sensorFw_RegisterCallback (demoEnv LE_OK LE_OK) docPeriodic SF_CB_NUMERIC ?cb
               (Some 7) demoInit = (Inr LE_OK, demoRegistered LE_OK)"
    using demoRegistered_eval(1) [of LE_OK] by (simp add: demoRegistered_def prod_eq_iff)
  have ro: "\<not> isReadOnce ?i1" by simp
  have cf: "configCb ?cb = Some (demoString LE_OK)" by (simp add: demoCallbacks_def)
  note T = config_handler_forwards_json [OF parse demo_dataTypeOf(1) ret ro cf]
  from T have made: "filter isConfigSetup (newEvents demoInit (demoRegistered LE_OK)) =
     [Hub_CreateOutput ''device/temperature/config'' IO_DATA_TYPE_JSON [],
      Hub_AddJsonPushHandler ''device/temperature/config'' 0]"
    by (simp add: demoInit_alloc)
  from T have "ConfigUpdateHandler 0 docEdit (Some (allocated demoInit)) (demoRegistered LE_OK) =
     (Inr (),
      (demoRegistered LE_OK)
        \<lparr>plugin := snd (demoString LE_OK (Some docEdit) (length docEdit) (Some 7)
                          (plugin (demoRegistered LE_OK))),
         trace := trace (demoRegistered LE_OK) @
           [Call_configCb (Some docEdit) (length docEdit) (Some 7)]\<rparr>)"
    by blast
  then have fwd: "ConfigUpdateHandler 0 docEdit (Some 0) (demoRegistered LE_OK) =
     (Inr (),
      (demoRegistered LE_OK)
        \<lparr>plugin := 3,
         trace := trace (demoRegistered LE_OK) @ [Call_configCb (Some docEdit) 8 (Some 7)]\<rparr>)"
    by (simp add: demoInit_alloc demoString_def demoRegistered_eval(2) docEdit_def)
  show ?thesis using parse ret made fwd by (simp add: demo_dataTypeOf)
qed

subsection \<open>Periodic and read-once entries\<close>



subsection \<open>A creation that the Hub refuses\<close>

text \<open>
  C9, as the code has it. For every registration that parsed its descriptor and was
  given one of the four callback types, the creation call it reaches decides. When
  that call answers anything other than \<^verbatim>\<open>LE_OK\<close> or \<^verbatim>\<open>LE_DUPLICATE\<close> (for
  a periodic sensor: answers \<^verbatim>\<open>NULL\<close>), the \<^verbatim>\<open>LE_ASSERT\<close> on the answer fails
  and ends the process, and nothing is returned to the plugin: so for the plain input
  of a read-once entry, for the periodic sensor, and for the config output, asked for
  in the trace as it stands after the sample. When the call answers \<^verbatim>\<open>LE_OK\<close> or
  \<^verbatim>\<open>LE_DUPLICATE\<close>, the one like the other, the registration goes on and returns
  \<^verbatim>\<open>LE_OK\<close>.
\<close>

theorem refused_creation_ends_process:
  assumes "ParseSensorInfo env doc (info (heap s (allocated s))) = (LE_OK, i1)"
      and "dataTypeOf t = Some dt"
  shows "(isReadOnce i1 \<and>
          io_CreateInput env (trace s) (path i1) dt (unit i1) \<notin> {LE_OK, LE_DUPLICATE} \<longrightarrow>
            fst (sensorFw_RegisterCallback env doc t cb ctx s) = Inl AssertFailed) \<and>
         (\<not> isReadOnce i1 \<and>
          psensor_Create env (trace s) (path i1) dt (unit i1) (allocated s) = None \<longrightarrow>
            fst (sensorFw_RegisterCallback env doc t cb ctx s) = Inl AssertFailed) \<and>
         (\<not> isReadOnce i1 \<and>
          psensor_Create env (trace s) (path i1) dt (unit i1) (allocated s) = Some ref \<and>
          configCb cb \<noteq> None \<and>
          selectedSample (sample cb) dt ctx (plugin s) = Some (e, r, v, w) \<and>
          io_CreateOutput env
            (trace s @
               [Psensor_Create (path i1) dt (unit i1) (allocated s),
                Hub_PushBoolean (path i1 @ ''/enable'') True,
                Hub_PushNumeric (path i1 @ ''/period'') 60,
                e] @
               (if r = LE_OK
                then [samplePush (i1\<lparr>sensorId := RegisteredSensorCount s, type := dt,
                                     sensorRef := Some ref\<rparr>) v]
                else []))
            (path i1 @ ''/config'') IO_DATA_TYPE_JSON [] \<notin> {LE_OK, LE_DUPLICATE} \<longrightarrow>
            fst (sensorFw_RegisterCallback env doc t cb ctx s) = Inl AssertFailed) \<and>
         (isReadOnce i1 \<and>
          selectedSample (sample cb) dt ctx (plugin s) = Some (e, r, v, w) \<and>
          io_CreateInput env (trace s) (path i1) dt (unit i1) \<in> {LE_OK, LE_DUPLICATE} \<longrightarrow>
            fst (sensorFw_RegisterCallback env doc t cb ctx s) = Inr LE_OK) \<and>
         (\<not> isReadOnce i1 \<and>
          psensor_Create env (trace s) (path i1) dt (unit i1) (allocated s) = Some ref \<and>
          configCb cb = None \<and>
          selectedSample (sample cb) dt ctx (plugin s) = Some (e, r, v, w) \<longrightarrow>
            fst (sensorFw_RegisterCallback env doc t cb ctx s) = Inr LE_OK) \<and>
         (\<not> isReadOnce i1 \<and>
          psensor_Create env (trace s) (path i1) dt (unit i1) (allocated s) = Some ref \<and>
          configCb cb \<noteq> None \<and>
          selectedSample (sample cb) dt ctx (plugin s) = Some (e, r, v, w) \<and>
          io_CreateOutput env
            (trace s @
               [Psensor_Create (path i1) dt (unit i1) (allocated s),
                Hub_PushBoolean (path i1 @ ''/enable'') True,
                Hub_PushNumeric (path i1 @ ''/period'') 60,
                e] @
               (if r = LE_OK
                then [samplePush (i1\<lparr>sensorId := RegisteredSensorCount s, type := dt,
                                     sensorRef := Some ref\<rparr>) v]
                else []))
            (path i1 @ ''/config'') IO_DATA_TYPE_JSON [] \<in> {LE_OK, LE_DUPLICATE} \<longrightarrow>
            fst (sensorFw_RegisterCallback env doc t cb ctx s) = Inr LE_OK)"
proof -
  have fits: "length (path i1) < IO_MAX_RESOURCE_PATH_LEN env"
    by (rule ParseSensorInfo_path_fits [OF assms(1)])
  have en: "resourcePathOf env (path i1) ''enable'' = path i1 @ ''/enable''"
    using resourcePathOf_fits [OF fits, of "''enable''"] by (simp add: MAX_RESOURCE_NAME_LEN_def)
  have pe: "resourcePathOf env (path i1) ''period'' = path i1 @ ''/period''"
    using resourcePathOf_fits [OF fits, of "''period''"] by (simp add: MAX_RESOURCE_NAME_LEN_def)
  have cfg: "resourcePathOf env (path i1) ''config'' = path i1 @ ''/config''"
    using resourcePathOf_fits [OF fits, of "''config''"] by (simp add: MAX_RESOURCE_NAME_LEN_def)
  let ?t1 = "trace s @
               [Psensor_Create (path i1) dt (unit i1) (allocated s),
                Hub_PushBoolean (path i1 @ ''/enable'') True,
                Hub_PushNumeric (path i1 @ ''/period'') 60,
                e] @
               (if r = LE_OK
                then [samplePush (i1\<lparr>sensorId := RegisteredSensorCount s, type := dt,
                                     sensorRef := Some ref\<rparr>) v]
                else [])"
  have t1: "?t1 = trace s @
                [Psensor_Create (path i1) dt (unit i1) (allocated s),
                 Hub_PushBoolean (resourcePathOf env (path i1) ''enable'') True,
                 Hub_PushNumeric (resourcePathOf env (path i1) ''period'')
                   DEFAULT_SAMPLING_PERIOD_SEC,
                 e] @ (if r = LE_OK
                       then [samplePush (i1\<lparr>sensorId := RegisteredSensorCount s, type := dt,
                                            sensorRef := Some ref\<rparr>) v]
                       else [])"
    by (simp add: en pe DEFAULT_SAMPLING_PERIOD_SEC_def)
  have out: "fst (sensorFw_RegisterCallback env doc t cb ctx s) =
               (if io_CreateOutput env ?t1 (path i1 @ ''/config'') IO_DATA_TYPE_JSON []
                     \<in> {LE_OK, LE_DUPLICATE}
                then Inr LE_OK else Inl AssertFailed)"
    if ro: "\<not> isReadOnce i1"
      and ps: "psensor_Create env (trace s) (path i1) dt (unit i1) (allocated s) = Some ref"
      and cf: "configCb cb \<noteq> None"
      and sel: "selectedSample (sample cb) dt ctx (plugin s) = Some (e, r, v, w)"
  proof -
    obtain f where f: "configCb cb = Some f" using cf by auto
    obtain cr cv w2 where fr: "f None MAX_RES_STRING_LEN ctx w = ((cr, cv), w2)"
      by (metis prod.exhaust)
    note C = register_periodic_config [OF assms sel ro ps f fr refl cfg [symmetric] t1]
    show ?thesis
    proof (cases "io_CreateOutput env ?t1 (path i1 @ ''/config'') IO_DATA_TYPE_JSON []
                    \<in> {LE_OK, LE_DUPLICATE}")
      case True
      then show ?thesis by (simp add: C(1) [OF True] del: insert_iff)
    next
      case False
      then show ?thesis by (simp add: C(2) [OF False] del: insert_iff)
    qed
  qed
  show ?thesis
  proof (intro conjI impI)
    assume "isReadOnce i1 \<and>
          io_CreateInput env (trace s) (path i1) dt (unit i1) \<notin> {LE_OK, LE_DUPLICATE}"
    then show "fst (sensorFw_RegisterCallback env doc t cb ctx s) = Inl AssertFailed"
      using register_read_once_refused [OF assms] by blast
  next
    assume "\<not> isReadOnce i1 \<and>
          psensor_Create env (trace s) (path i1) dt (unit i1) (allocated s) = None"
    then show "fst (sensorFw_RegisterCallback env doc t cb ctx s) = Inl AssertFailed"
      using register_periodic_refused [OF assms] by blast
  next
    assume a: "\<not> isReadOnce i1 \<and>
          psensor_Create env (trace s) (path i1) dt (unit i1) (allocated s) = Some ref \<and>
          configCb cb \<noteq> None \<and>
          selectedSample (sample cb) dt ctx (plugin s) = Some (e, r, v, w) \<and>
          io_CreateOutput env ?t1 (path i1 @ ''/config'') IO_DATA_TYPE_JSON []
            \<notin> {LE_OK, LE_DUPLICATE}"
    then have "fst (sensorFw_RegisterCallback env doc t cb ctx s) =
               (if io_CreateOutput env ?t1 (path i1 @ ''/config'') IO_DATA_TYPE_JSON []
                     \<in> {LE_OK, LE_DUPLICATE}
                then Inr LE_OK else Inl AssertFailed)"
      by (intro out) blast+
    with a show "fst (sensorFw_RegisterCallback env doc t cb ctx s) = Inl AssertFailed"
      by (simp del: insert_iff)
  next
    assume a: "isReadOnce i1 \<and>
          selectedSample (sample cb) dt ctx (plugin s) = Some (e, r, v, w) \<and>
          io_CreateInput env (trace s) (path i1) dt (unit i1) \<in> {LE_OK, LE_DUPLICATE}"
    then have ro: "isReadOnce i1"
      and sel: "selectedSample (sample cb) dt ctx (plugin s) = Some (e, r, v, w)"
      and good: "io_CreateInput env (trace s) (path i1) dt (unit i1) \<in> {LE_OK, LE_DUPLICATE}"
      by blast+
    show "fst (sensorFw_RegisterCallback env doc t cb ctx s) = Inr LE_OK"
      by (simp add: register_read_once [OF assms sel ro good])
  next
    assume a: "\<not> isReadOnce i1 \<and>
          psensor_Create env (trace s) (path i1) dt (unit i1) (allocated s) = Some ref \<and>
          configCb cb = None \<and>
          selectedSample (sample cb) dt ctx (plugin s) = Some (e, r, v, w)"
    then have ro: "\<not> isReadOnce i1"
      and ps: "psensor_Create env (trace s) (path i1) dt (unit i1) (allocated s) = Some ref"
      and nc: "configCb cb = None"
      and sel: "selectedSample (sample cb) dt ctx (plugin s) = Some (e, r, v, w)"
      by blast+
    show "fst (sensorFw_RegisterCallback env doc t cb ctx s) = Inr LE_OK"
      by (simp add: register_periodic_plain [OF assms sel ro ps nc])
  next
    assume a: "\<not> isReadOnce i1 \<and>
          psensor_Create env (trace s) (path i1) dt (unit i1) (allocated s) = Some ref \<and>
          configCb cb \<noteq> None \<and>
          selectedSample (sample cb) dt ctx (plugin s) = Some (e, r, v, w) \<and>
          io_CreateOutput env ?t1 (path i1 @ ''/config'') IO_DATA_TYPE_JSON []
            \<in> {LE_OK, LE_DUPLICATE}"
    then have "fst (sensorFw_RegisterCallback env doc t cb ctx s) =
               (if io_CreateOutput env ?t1 (path i1 @ ''/config'') IO_DATA_TYPE_JSON []
                     \<in> {LE_OK, LE_DUPLICATE}
                then Inr LE_OK else Inl AssertFailed)"
      by (intro out) blast+
    with a show "fst (sensorFw_RegisterCallback env doc t cb ctx s) = Inr LE_OK"
      by (simp del: insert_iff)
  qed
qed

lemma demoEnvFull_sel:
  "json_Extract demoEnvFull = demoExtract"
  "json_ConvertToBoolean demoEnvFull v = (v = ''true'')"
  "io_CreateInput demoEnvFull tr p ty u = LE_OK"
  "io_CreateOutput demoEnvFull tr p ty u = (if tr = [] then LE_OK else LE_NO_MEMORY)"
  "psensor_Create demoEnvFull tr p ty u h = Some h"
  "IO_MAX_RESOURCE_PATH_LEN demoEnvFull = 79"
  "IO_MAX_UNITS_NAME_LEN demoEnvFull = 23"
  by (simp_all add: demoEnvFull_def demoEnv_def)

lemma demoEnvFull_parse:
  "ParseSensorInfo demoEnvFull docPeriodic i0 =
     (LE_OK, i0\<lparr>name := ''temp'', path := ''device/temperature'', isReadOnce := False,
                 unit := ''degC''\<rparr>)"
  by (simp add: ParseSensorInfo_def demoEnvFull_sel demoExtract_eval le_utf8_Copy_def
                MAX_RESOURCE_NAME_LEN_def)

theorem refused_creation_ends_process_witness:
  "fst (sensorFw_RegisterCallback (demoEnv LE_NO_MEMORY LE_OK) docOnce SF_CB_STRING
          (demoCallbacks (StringCb (demoString LE_OK)) None) None demoInit) = Inl AssertFailed \<and>
   fst (sensorFw_RegisterCallback (demoEnv LE_NO_MEMORY LE_OK) docPeriodic SF_CB_NUMERIC
          (demoCallbacks (NumericCb (demoNumeric LE_OK)) None) None demoInit) = Inl AssertFailed \<and>
   fst (sensorFw_RegisterCallback (demoEnv LE_OK LE_NO_MEMORY) docPeriodic SF_CB_NUMERIC
          (demoCallbacks (NumericCb (demoNumeric LE_OK)) (Some (demoString LE_OK))) None
          demoInit) = Inl AssertFailed \<and>
   io_CreateOutput demoEnvFull [] ''device/temperature/config'' IO_DATA_TYPE_JSON [] = LE_OK \<and>
   fst (sensorFw_RegisterCallback demoEnvFull docPeriodic SF_CB_NUMERIC
          (demoCallbacks (NumericCb (demoNumeric LE_OK)) (Some (demoString LE_OK))) None
          demoInit) = Inl AssertFailed \<and>
   fst (sensorFw_RegisterCallback (demoEnv LE_DUPLICATE LE_OK) docOnce SF_CB_STRING
          (demoCallbacks (StringCb (demoString LE_OK)) None) None demoInit) = Inr LE_OK \<and>
   fst (sensorFw_RegisterCallback (demoEnv LE_OK LE_OK) docPeriodic SF_CB_NUMERIC
          (demoCallbacks (NumericCb (demoNumeric LE_OK)) None) None demoInit) = Inr LE_OK \<and>
   fst (sensorFw_RegisterCallback (demoEnv LE_OK LE_DUPLICATE) docPeriodic SF_CB_NUMERIC
          (demoCallbacks (NumericCb (demoNumeric LE_OK)) (Some (demoString LE_OK))) None
          demoInit) = Inr LE_OK"
proof -
  let ?iO = "(info demoBlock)\<lparr>name := ''sn'', path := ''device/SN'', isReadOnce := True,
                              unit := []\<rparr>"
  let ?iP = "(info demoBlock)\<lparr>name := ''temp'', path := ''device/temperature'',
                              isReadOnce := False, unit := ''degC''\<rparr>"
  let ?cbO = "demoCallbacks (StringCb (demoString LE_OK)) None"
  let ?cbP = "demoCallbacks (NumericCb (demoNumeric LE_OK)) None"
  let ?cbC = "demoCallbacks (NumericCb (demoNumeric LE_OK)) (Some (demoString LE_OK))"
  have parseO: "ParseSensorInfo (demoEnv a b) docOnce
                 (info (heap demoInit (allocated demoInit))) = (LE_OK, ?iO)" for a b
    by (simp add: demoParse_eval demoInit_alloc)
  have parseP: "ParseSensorInfo (demoEnv a b) docPeriodic
                  (info (heap demoInit (allocated demoInit))) = (LE_OK, ?iP)" for a b
    by (simp add: demoParse_eval demoInit_alloc)
  have parseF: "ParseSensorInfo demoEnvFull docPeriodic
                  (info (heap demoInit (allocated demoInit))) = (LE_OK, ?iP)"
    by (simp add: demoEnvFull_parse demoInit_alloc)
  note O = refused_creation_ends_process [OF parseO demo_dataTypeOf(2),
             where cb = ?cbO and ctx = None and e = "Call_stringCb 1024 None" and r = LE_OK
               and v = "StringSample ''v1''" and w = 1 and ref = 0]
  note P = refused_creation_ends_process [OF parseP demo_dataTypeOf(1),
             where ctx = None and e = "Call_numericCb 8 None" and r = LE_OK
               and v = "NumericSample 42" and w = 1 and ref = 0]
  note F = refused_creation_ends_process [OF parseF demo_dataTypeOf(1),
             where cb = ?cbC and ctx = None and e = "Call_numericCb 8 None" and r = LE_OK
               and v = "NumericSample 42" and w = 1 and ref = 0]
  have selO: "selectedSample (sample ?cbO) IO_DATA_TYPE_STRING None (plugin demoInit) =
                Some (Call_stringCb 1024 None, LE_OK, StringSample ''v1'', 1)"
    by (simp add: demoCallbacks_def demoString_def demoInit_alloc MAX_RES_STRING_LEN_def)
  have selP: "selectedSample (sample ?cbP) IO_DATA_TYPE_NUMERIC None (plugin demoInit) =
                Some (Call_numericCb 8 None, LE_OK, NumericSample 42, 1)"
       "selectedSample (sample ?cbC) IO_DATA_TYPE_NUMERIC None (plugin demoInit) =
                Some (Call_numericCb 8 None, LE_OK, NumericSample 42, 1)"
    by (simp_all add: demoCallbacks_def demoNumeric_def demoInit_alloc)
  have cf: "configCb ?cbP = None" "configCb ?cbC \<noteq> None"
    by (simp_all add: demoCallbacks_def)
  have 1: "fst (sensorFw_RegisterCallback (demoEnv LE_NO_MEMORY LE_OK) docOnce SF_CB_STRING
          ?cbO None demoInit) = Inl AssertFailed"
    using O [of LE_NO_MEMORY LE_OK] by (simp add: demoEnv_sel)
  have 2: "fst (sensorFw_RegisterCallback (demoEnv LE_NO_MEMORY LE_OK) docPeriodic SF_CB_NUMERIC
          ?cbP None demoInit) = Inl AssertFailed"
    using P [of LE_NO_MEMORY LE_OK ?cbP] by (simp add: demoEnv_sel)
  have 3: "fst (sensorFw_RegisterCallback (demoEnv LE_OK LE_NO_MEMORY) docPeriodic SF_CB_NUMERIC
          ?cbC None demoInit) = Inl AssertFailed"
    using P [of LE_OK LE_NO_MEMORY ?cbC] selP(2) cf(2)
    by (simp add: demoEnv_sel demoInit_alloc)
  have 4: "fst (sensorFw_RegisterCallback demoEnvFull docPeriodic SF_CB_NUMERIC
          ?cbC None demoInit) = Inl AssertFailed"
    using F selP(2) cf(2) by (simp add: demoEnvFull_sel demoInit_alloc)
  have 5: "fst (sensorFw_RegisterCallback (demoEnv LE_DUPLICATE LE_OK) docOnce SF_CB_STRING
          ?cbO None demoInit) = Inr LE_OK"
    using O [of LE_DUPLICATE LE_OK] selO by (simp add: demoEnv_sel)
  have 6: "fst (sensorFw_RegisterCallback (demoEnv LE_OK LE_OK) docPeriodic SF_CB_NUMERIC
          ?cbP None demoInit) = Inr LE_OK"
    using P [of LE_OK LE_OK ?cbP] selP(1) cf(1) by (simp add: demoEnv_sel demoInit_alloc)
  have 7: "fst (sensorFw_RegisterCallback (demoEnv LE_OK LE_DUPLICATE) docPeriodic SF_CB_NUMERIC
          ?cbC None demoInit) = Inr LE_OK"
    using P [of LE_OK LE_DUPLICATE ?cbC] selP(2) cf(2)
    by (simp add: demoEnv_sel demoInit_alloc)
  show ?thesis using 1 2 3 4 5 6 7 by (simp add: demoEnvFull_sel)
qed

text \<open>
  C9 as stated fails: with a Data Hub that answers \<^verbatim>\<open>LE_FAULT\<close> to
  \<^verbatim>\<open>io_CreateInput\<close>, the registration of the read-once string sensor does not
  return \<^verbatim>\<open>LE_FAULT\<close> to the plugin; the assertion ends the process.
\<close>

theorem refused_creation_counterexample:
  "io_CreateInput (demoEnv LE_FAULT LE_OK) [] ''device/SN'' IO_DATA_TYPE_STRING [] = LE_FAULT \<and>
   fst (sensorFw_RegisterCallback (demoEnv LE_FAULT LE_OK) docOnce SF_CB_STRING
          (demoCallbacks (StringCb (demoString LE_OK)) None) None demoInit) = Inl AssertFailed \<and>
   fst (sensorFw_RegisterCallback (demoEnv LE_FAULT LE_OK) docOnce SF_CB_STRING
          (demoCallbacks (StringCb (demoString LE_OK)) None) None demoInit) \<noteq> Inr LE_FAULT"
proof -
  have "fst (sensorFw_RegisterCallback (demoEnv LE_FAULT LE_OK) docOnce SF_CB_STRING
          (demoCallbacks (StringCb (demoString LE_OK)) None) None demoInit) = Inl AssertFailed"
    by (rule register_read_once_refused [OF demoParse_eval(1) demo_dataTypeOf(2)])
       (simp_all add: demoEnv_sel)
  then show ?thesis by (simp add: demoEnv_sel)
qed

subsection \<open>Registrations beyond the size of the pool\<close>

lemma register_accepted:
  assumes valid: "validDescriptor env doc"
      and dt: "dataTypeOf t = Some dt"
      and sm: "sampleMatches (sample cb) dt"
      and hub: "hubAccepts env"
  shows "fst (sensorFw_RegisterCallback env doc t cb ctx s) = Inr LE_OK \<and>
         RegisteredSensorCount (snd (sensorFw_RegisterCallback env doc t cb ctx s)) =
           RegisteredSensorCount s + 1 \<and>
         SensorHandlerPool (snd (sensorFw_RegisterCallback env doc t cb ctx s)) =
           snd (le_mem_ForceAlloc (SensorHandlerPool s))"
proof -
  have "fst (ParseSensorInfo env doc (info (heap s (allocated s)))) = LE_OK"
    using valid ParseSensorInfo_ok_iff [of env doc "info (heap s (allocated s))"]
    by (simp add: validDescriptor_def)
  then obtain i1 where parse: "ParseSensorInfo env doc (info (heap s (allocated s))) = (LE_OK, i1)"
    by (cases "ParseSensorInfo env doc (info (heap s (allocated s)))") simp
  obtain e r v w where sel: "selectedSample (sample cb) dt ctx (plugin s) = Some (e, r, v, w)"
    using sampleMatches_selected [OF sm] by blast
  have in_ok: "io_CreateInput env tr p ty u \<in> {LE_OK, LE_DUPLICATE}"
    and out_ok: "io_CreateOutput env tr p ty u \<in> {LE_OK, LE_DUPLICATE}"
    and ps_ok: "psensor_Create env tr p ty u h \<noteq> None" for tr p ty u h
    using hub by (simp_all add: hubAccepts_def)
  show ?thesis
  proof (cases "isReadOnce i1")
    case True
    show ?thesis
      by (simp add: register_read_once [OF parse dt sel True in_ok])
  next
    case False
    obtain ref where ps: "psensor_Create env (trace s) (path i1) dt (unit i1) (allocated s) = Some ref"
      using ps_ok [of "trace s" "path i1" dt "unit i1" "allocated s"] by auto
    show ?thesis
    proof (cases "configCb cb")
      case None
      show ?thesis
        by (simp add: register_periodic_plain [OF parse dt sel False ps None])
    next
      case (Some f)
      obtain cr cv w2 where fr: "f None MAX_RES_STRING_LEN ctx w = ((cr, cv), w2)"
        by (metis prod.exhaust)
      show ?thesis
        by (simp add: register_periodic_config(1)
                        [OF parse dt sel False ps Some fr refl refl refl out_ok])
    qed
  qed
qed

lemma registerAll_accepted:
  assumes hub: "hubAccepts env"
  shows "\<forall>req \<in> set reqs. validRequest env req \<Longrightarrow>
         fst (registerAll env reqs s) = map (\<lambda>_. Inr LE_OK) reqs \<and>
         RegisteredSensorCount (snd (registerAll env reqs s)) =
           RegisteredSensorCount s + of_nat (length reqs) \<and>
         SensorHandlerPool (snd (registerAll env reqs s)) =
           ((\<lambda>p. snd (le_mem_ForceAlloc p)) ^^ length reqs) (SensorHandlerPool s)"
proof (induction reqs arbitrary: s)
  case Nil
  show ?case by simp
next
  case (Cons req reqs)
  obtain doc t cb ctx where req: "req = (doc, t, cb, ctx)" by (cases req) auto
  from Cons.prems have v: "validRequest env (doc, t, cb, ctx)" by (simp add: req)
  then obtain dt where valid: "validDescriptor env doc" and dt: "dataTypeOf t = Some dt"
      and sm: "sampleMatches (sample cb) dt"
    by (auto simp: validRequest_def split: option.splits)
  obtain s1 where r1: "sensorFw_RegisterCallback env doc t cb ctx s = (Inr LE_OK, s1)"
    and c1: "RegisteredSensorCount s1 = RegisteredSensorCount s + 1"
    and p1: "SensorHandlerPool s1 = snd (le_mem_ForceAlloc (SensorHandlerPool s))"
    using register_accepted [OF valid dt sm hub, of ctx s]
    by (cases "sensorFw_RegisterCallback env doc t cb ctx s") auto
  from Cons.prems have rest: "\<forall>req \<in> set reqs. validRequest env req" by simp
  note IH = Cons.IH [OF rest, of s1]
  show ?case
    using IH funpow_swap1 [of "\<lambda>p. snd (le_mem_ForceAlloc p)" "length reqs" "SensorHandlerPool s"]
    by (auto simp: req r1 c1 p1 add.assoc split: prod.splits)
qed

lemma pool_after_allocations:
  "k \<le> n \<Longrightarrow>
   ((\<lambda>p. snd (le_mem_ForceAlloc p)) ^^ k) (le_mem_InitStaticPool n) =
     \<lparr>numBlocks = n, freeList = [k..<n], numOverflows = 0\<rparr>"
proof (induction k)
  case 0
  show ?case by (simp add: le_mem_InitStaticPool_def)
next
  case (Suc k)
  then have "k < n" by simp
  then have "[k..<n] = k # [Suc k..<n]" by (simp add: upt_conv_Cons)
  with Suc show ?case by (simp add: le_mem_ForceAlloc_def)
qed

lemma pool_overflows:
  "((\<lambda>p. snd (le_mem_ForceAlloc p)) ^^ Suc n) (le_mem_InitStaticPool n) =
     \<lparr>numBlocks = Suc n, freeList = [], numOverflows = 1\<rparr>"
  using pool_after_allocations [of n n] by (simp add: le_mem_ForceAlloc_def)

text \<open>
  C5, as the code has it. For every sequence of registrations with valid descriptors,
  each with one of the four callback types and a callback of that kind, against a Hub
  that accepts the creations: every registration returns \<^verbatim>\<open>LE_OK\<close>, whatever the
  state of the pool and however long the sequence, so also beyond
  \<^verbatim>\<open>SENSOR_HANDLER_POOL_SIZE\<close>; and the count grows by the length of the sequence.
  Each registration takes its handler with \<^verbatim>\<open>le_mem_ForceAlloc\<close>, which always
  hands out a block, and the registration has no result for an exhausted pool.
\<close>

theorem registrations_all_accepted:
  assumes "hubAccepts env"
      and "\<forall>req \<in> set reqs. validRequest env req"
  shows "fst (registerAll env reqs s) = map (\<lambda>_. Inr LE_OK) reqs \<and>
         RegisteredSensorCount (snd (registerAll env reqs s)) =
           RegisteredSensorCount s + of_nat (length reqs) \<and>
         SensorHandlerPool (snd (registerAll env reqs s)) =
           ((\<lambda>p. snd (le_mem_ForceAlloc p)) ^^ length reqs) (SensorHandlerPool s)"
  using registerAll_accepted [OF assms] .

lemma demo_accepts: "hubAccepts (demoEnv LE_OK LE_OK)"
  by (simp add: hubAccepts_def demoEnv_sel)

lemma demoRequest_valid: "validRequest (demoEnv LE_OK LE_OK) demoRequest"
  by (simp add: validRequest_def demoRequest_def validDescriptor_def demoEnv_sel
                demoExtract_eval demo_dataTypeOf demoCallbacks_def MAX_RESOURCE_NAME_LEN_def)

theorem registrations_all_accepted_witness:
  "validRequest (demoEnv LE_OK LE_OK) demoRequest \<and>
   fst (registerAll (demoEnv LE_OK LE_OK) (replicate 101 demoRequest) demoInit) =
     replicate 101 (Inr LE_OK) \<and>
   RegisteredSensorCount
     (snd (registerAll (demoEnv LE_OK LE_OK) (replicate 101 demoRequest) demoInit)) = 101"
proof -
  have v: "\<forall>req \<in> set (replicate 101 demoRequest). validRequest (demoEnv LE_OK LE_OK) req"
    using demoRequest_valid by simp
  show ?thesis
    using registrations_all_accepted [OF demo_accepts v, of demoInit] demoRequest_valid
    by (simp add: demoInit_alloc del: funpow.simps)
qed

text \<open>
  C5 as stated fails: in the configuration with a pool of 100 handlers, the 101
  registrations of a valid descriptor made from the initial state all return
  \<^verbatim>\<open>LE_OK\<close>. After 100 of them the free list is empty; the one beyond the
  pool's size returns \<^verbatim>\<open>LE_OK\<close> too, and the pool has grown to 101 blocks and
  counted one overflow.
\<close>

theorem registration_beyond_pool_counterexample:
  "SENSOR_HANDLER_POOL_SIZE True = 100 \<and>
   SensorHandlerPool demoInit = le_mem_InitStaticPool 100 \<and>
   SensorHandlerPool
     (snd (registerAll (demoEnv LE_OK LE_OK) (replicate 100 demoRequest) demoInit)) =
     \<lparr>numBlocks = 100, freeList = [], numOverflows = 0\<rparr> \<and>
   length (fst (registerAll (demoEnv LE_OK LE_OK) (replicate 101 demoRequest) demoInit)) = 101 \<and>
   fst (registerAll (demoEnv LE_OK LE_OK) (replicate 101 demoRequest) demoInit) ! 100 =
     Inr LE_OK \<and>
   SensorHandlerPool
     (snd (registerAll (demoEnv LE_OK LE_OK) (replicate 101 demoRequest) demoInit)) =
     \<lparr>numBlocks = 101, freeList = [], numOverflows = 1\<rparr>"
proof -
  have pool: "SensorHandlerPool demoInit = le_mem_InitStaticPool 100"
    by (simp add: demoInit_def COMPONENT_INIT_def SENSOR_HANDLER_POOL_SIZE_def)
  have v: "\<forall>req \<in> set (replicate n demoRequest). validRequest (demoEnv LE_OK LE_OK) req"
    for n using demoRequest_valid by simp
  have full: "SensorHandlerPool
     (snd (registerAll (demoEnv LE_OK LE_OK) (replicate 100 demoRequest) demoInit)) =
     \<lparr>numBlocks = 100, freeList = [], numOverflows = 0\<rparr>"
    using registerAll_accepted [OF demo_accepts v [of 100], of demoInit]
          pool_after_allocations [of 100 100]
    by (simp add: pool)
  have "Suc 100 = 101" by simp
  then have over: "SensorHandlerPool
     (snd (registerAll (demoEnv LE_OK LE_OK) (replicate 101 demoRequest) demoInit)) =
     \<lparr>numBlocks = 101, freeList = [], numOverflows = 1\<rparr>"
    using registerAll_accepted [OF demo_accepts v [of 101], of demoInit]
          pool_overflows [of 100]
    by (simp add: pool del: funpow.simps)
  have res: "fst (registerAll (demoEnv LE_OK LE_OK) (replicate 101 demoRequest) demoInit) =
          replicate 101 (Inr LE_OK)"
    using registerAll_accepted [OF demo_accepts v [of 101], of demoInit] by simp
  show ?thesis
    using pool full over by (simp add: res SENSOR_HANDLER_POOL_SIZE_def)
qed

end
